theory Spec2Isabelle
  imports Complex_Main
begin

section \<open>Data model: a pandas DataFrame\<close>

text \<open>
  The functions of \<^verbatim>\<open>tfdeepsurv/datasets.py\<close> work on a \<^verbatim>\<open>pandas.DataFrame\<close>.
  A frame is modelled as its row count (\<^verbatim>\<open>len(data)\<close>, the length of the index) and the
  ordered list of its columns. A column is a name with a Series: a dtype and the cell
  values. Three dtypes are represented: \<^verbatim>\<open>int64\<close>, \<^verbatim>\<open>float64\<close> and \<^verbatim>\<open>object\<close> (cells
  that are Python numbers). Cells are finite numbers, taken as rationals; there are no
  missing values. Rows are addressed by position (the default \<^verbatim>\<open>RangeIndex\<close>). The
  behaviour of pandas is that of version 3, where a write that the dtype of an existing
  column cannot hold raises \<^verbatim>\<open>TypeError\<close> instead of changing the dtype.
\<close>

datatype dtype = Int64 | Float64 | Object

type_synonym series = "dtype \<times> rat list"

type_synonym column = "string \<times> series"

record dataframe =
  index_len :: nat
  columns :: "column list"

text \<open>An \<^verbatim>\<open>int64\<close> cell is a whole number from \<open>-2\<^sup>6\<^sup>3\<close> up to \<open>2\<^sup>6\<^sup>3 - 1\<close>.\<close>

definition is_int64 :: "rat \<Rightarrow> bool" where
  "is_int64 v \<longleftrightarrow> of_int \<lfloor>v\<rfloor> = v \<and> - (2 ^ 63) \<le> v \<and> v < 2 ^ 63"

text \<open>
  A frame pandas can hold: distinct column names, every column as long as the index,
  and only \<^verbatim>\<open>int64\<close> values in an \<^verbatim>\<open>int64\<close> column.
\<close>

definition wf_dataframe :: "dataframe \<Rightarrow> bool" where
  "wf_dataframe data \<longleftrightarrow>
     distinct (map fst (columns data)) \<and>
     list_all (\<lambda>col. length (snd (snd col)) = index_len data) (columns data) \<and>
     list_all (\<lambda>col. list_all is_int64 (snd (snd col)))
       (filter (\<lambda>col. fst (snd col) = Int64) (columns data))"

text \<open>
  Errors of the source. Neither function of the module raises an exception of its own.
  Those that arise in the modelled lines are: the \<^verbatim>\<open>KeyError\<close> pandas raises for a column
  name that the frame does not have; the \<^verbatim>\<open>TypeError\<close> it raises for a write into an
  existing column whose dtype cannot hold the values; Python's \<^verbatim>\<open>ZeroDivisionError\<close>;
  and the \<^verbatim>\<open>ValueError\<close> of the \<^verbatim>\<open>DataFrame\<close> constructor on a shape mismatch.
\<close>

datatype error = KeyError string | TypeError | ZeroDivisionError | ValueError

text \<open>
  \<^verbatim>\<open>data[c]\<close> and \<^verbatim>\<open>data.loc[:, c]\<close> read: the Series of the column, or \<^verbatim>\<open>KeyError\<close>
  (here \<open>None\<close>). \<open>getitem\<close> gives its values and \<open>dtype_of\<close> its dtype.
\<close>

definition series_of :: "dataframe \<Rightarrow> string \<Rightarrow> series option" where
  "series_of data c = map_of (columns data) c"

definition getitem :: "dataframe \<Rightarrow> string \<Rightarrow> rat list option" where
  "getitem data c = map_option snd (series_of data c)"

definition dtype_of :: "dataframe \<Rightarrow> string \<Rightarrow> dtype option" where
  "dtype_of data c = map_option fst (series_of data c)"

text \<open>
  Putting a Series under a name: an existing column is replaced where it stands, a new
  name is appended as the last column.
\<close>

fun set_column :: "string \<Rightarrow> series \<Rightarrow> column list \<Rightarrow> column list" where
  "set_column c s [] = [(c, s)]"
| "set_column c s (col # cols) =
     (if fst col = c then (c, s) # cols else col # set_column c s cols)"

definition put_column :: "dataframe \<Rightarrow> string \<Rightarrow> series \<Rightarrow> dataframe" where
  "put_column data c s = data\<lparr>columns := set_column c s (columns data)\<rparr>"

text \<open>
  Conversion of an \<^verbatim>\<open>int64\<close> value to \<^verbatim>\<open>float64\<close>: exact up to 53 bits, and rounded
  to the nearest double, ties to even, beyond.
\<close>

fun bit_length :: "nat \<Rightarrow> nat" where
  "bit_length n = (if n = 0 then 0 else Suc (bit_length (n div 2)))"

declare bit_length.simps [simp del]

definition round_to_double :: "int \<Rightarrow> int" where
  "round_to_double n =
     (let a = nat \<bar>n\<bar>; k = bit_length a - 53
      in if k = 0 then n
         else (let q = a div 2 ^ k; r = a mod 2 ^ k; h = 2 ^ (k - 1);
                   q' = (if h < r \<or> (r = h \<and> odd q) then q + 1 else q)
               in sgn n * int (q' * 2 ^ k)))"

definition to_float64 :: "rat \<Rightarrow> rat" where
  "to_float64 v = of_int (round_to_double \<lfloor>v\<rfloor>)"

text \<open>
  Whether an existing column of dtype \<open>cd\<close> can take the values of a Series without
  changing its dtype (\<^verbatim>\<open>np_can_hold_element\<close> of pandas), and the values as they are then
  stored. An \<^verbatim>\<open>object\<close> column takes anything. An \<^verbatim>\<open>int64\<close> column takes \<^verbatim>\<open>int64\<close>
  values, and \<^verbatim>\<open>float64\<close> values if every one of them is a whole number in the
  \<^verbatim>\<open>int64\<close> range. A \<^verbatim>\<open>float64\<close> column takes \<^verbatim>\<open>float64\<close> values, and \<^verbatim>\<open>int64\<close> values
  converted to doubles (the check compares after conversion, so a rounded value passes).
  Neither numeric dtype takes an \<^verbatim>\<open>object\<close> Series.
\<close>

definition np_can_hold_element :: "dtype \<Rightarrow> series \<Rightarrow> rat list option" where
  "np_can_hold_element cd s =
     (case cd of
        Object \<Rightarrow> Some (snd s)
      | Int64 \<Rightarrow>
          (case fst s of
             Int64 \<Rightarrow> Some (snd s)
           | Float64 \<Rightarrow> if list_all is_int64 (snd s) then Some (snd s) else None
           | Object \<Rightarrow> None)
      | Float64 \<Rightarrow>
          (case fst s of
             Float64 \<Rightarrow> Some (snd s)
           | Int64 \<Rightarrow> Some (map to_float64 (snd s))
           | Object \<Rightarrow> None))"

text \<open>
  \<^verbatim>\<open>data.loc[:, c] = series\<close>, a write of a whole column. For a new name the Series
  becomes the last column, with its own dtype. For an existing column the values are
  set in place, converted to the column's dtype; if that dtype cannot hold them, pandas
  raises \<^verbatim>\<open>TypeError\<close> and the frame is as before, except that in a frame without rows
  the column is replaced by the Series. \<open>stored_series\<close> is the Series that the column
  holds after the write. The frame object itself is changed; the model returns the
  changed frame.
\<close>

definition stored_series :: "dataframe \<Rightarrow> string \<Rightarrow> series \<Rightarrow> error + series" where
  "stored_series data c s =
     (case series_of data c of
        None \<Rightarrow> Inr s
      | Some old \<Rightarrow>
          (case np_can_hold_element (fst old) s of
             Some casted \<Rightarrow> Inr (fst old, casted)
           | None \<Rightarrow> if index_len data = 0 then Inr s else Inl TypeError))"

definition loc_setitem :: "dataframe \<Rightarrow> string \<Rightarrow> series \<Rightarrow> error + dataframe" where
  "loc_setitem data c s =
     (case stored_series data c s of
        Inl err \<Rightarrow> Inl err
      | Inr s' \<Rightarrow> Inr (put_column data c s'))"

text \<open>
  Boolean-mask access, \<^verbatim>\<open>data.loc[mask, c]\<close>: reading yields the cells of the rows where
  the mask is true; writing stores the given values into those rows, in order, and leaves
  the other rows as they are. In \<^verbatim>\<open>survival_df\<close> the values written are the negated
  values just read under the same mask, one for each selected row, of the column's own
  dtype.
\<close>

fun mask_get :: "bool list \<Rightarrow> rat list \<Rightarrow> rat list" where
  "mask_get (m # ms) (v # vs) = (if m then v # mask_get ms vs else mask_get ms vs)"
| "mask_get _ _ = []"

fun mask_set :: "bool list \<Rightarrow> rat list \<Rightarrow> rat list \<Rightarrow> rat list" where
  "mask_set (m # ms) (v # vs) new =
     (if m then (case new of [] \<Rightarrow> v # mask_set ms vs [] | n # ns \<Rightarrow> n # mask_set ms vs ns)
      else v # mask_set ms vs new)"
| "mask_set _ vs _ = vs"

text \<open>
  Unary minus on a cell: exact, except that \<^verbatim>\<open>int64\<close> wraps around at its least value.
\<close>

definition negate :: "dtype \<Rightarrow> rat \<Rightarrow> rat" where
  "negate d v = (if d = Int64 \<and> v = - (2 ^ 63) then v else - v)"

text \<open>\<^verbatim>\<open>data[names]\<close> with a list of names: a new frame of those columns, in the order
  of the list (a name listed twice is taken twice); \<^verbatim>\<open>KeyError\<close> for the first name
  that is missing.\<close>

fun select_columns :: "dataframe \<Rightarrow> string list \<Rightarrow> error + column list" where
  "select_columns data [] = Inr []"
| "select_columns data (c # cs) =
     (case series_of data c of
        None \<Rightarrow> Inl (KeyError c)
      | Some s \<Rightarrow>
          (case select_columns data cs of
             Inl err \<Rightarrow> Inl err
           | Inr cols \<Rightarrow> Inr ((c, s) # cols)))"

definition getitem_list :: "dataframe \<Rightarrow> string list \<Rightarrow> error + dataframe" where
  "getitem_list data names =
     (case select_columns data names of
        Inl err \<Rightarrow> Inl err
      | Inr cols \<Rightarrow> Inr \<lparr>index_len = index_len data, columns = cols\<rparr>)"

text \<open>
  Two conditions on the first assignment of \<^verbatim>\<open>survival_df\<close>, which writes a Series of
  dtype \<open>d\<close> under the name \<open>label_col\<close>. The label \<^emph>\<open>fits\<close> when the name is new, or
  names a column of that same dtype, an \<^verbatim>\<open>object\<close> column, or a \<^verbatim>\<open>float64\<close> column while
  the Series is \<^verbatim>\<open>int64\<close>: then the write is taken. The label \<^emph>\<open>is refused\<close> when the frame
  has rows and the name is that of an \<^verbatim>\<open>int64\<close> column while the Series is \<^verbatim>\<open>float64\<close> with
  a value that is no \<^verbatim>\<open>int64\<close>, or that of a numeric column while the Series is
  \<^verbatim>\<open>object\<close>: then the write raises \<^verbatim>\<open>TypeError\<close>.
\<close>

definition label_fits :: "dataframe \<Rightarrow> string \<Rightarrow> dtype \<Rightarrow> bool" where
  "label_fits data label_col d \<longleftrightarrow>
     (case dtype_of data label_col of
        None \<Rightarrow> True
      | Some cd \<Rightarrow> cd = d \<or> cd = Object \<or> (cd = Float64 \<and> d = Int64))"

definition label_refused :: "dataframe \<Rightarrow> string \<Rightarrow> series \<Rightarrow> bool" where
  "label_refused data label_col s \<longleftrightarrow>
     index_len data \<noteq> 0 \<and>
     (case dtype_of data label_col of
        None \<Rightarrow> False
      | Some cd \<Rightarrow>
          (cd = Int64 \<and> fst s = Float64 \<and> \<not> list_all is_int64 (snd s)) \<or>
          (cd \<noteq> Object \<and> fst s = Object))"

section \<open>\<^verbatim>\<open>survival_df\<close>: the label encoding\<close>

text \<open>
  \<^verbatim>\<open>
  def survival_df(data, t_col="t", e_col="e", label_col="Y", exclude_col=[]):
      x_cols = [c for c in data.columns if c not in [t_col, e_col] + exclude_col]
      # Negtive values are considered right censored
      data.loc[:, label_col] = data.loc[:, t_col]
      data.loc[data[e_col] == 0, label_col] = - data.loc[data[e_col] == 0, label_col]
      return data[x_cols + [label_col]]
  \<close>
  with the docstring: \<^emph>\<open>Returns: Transformed survival data. Negtive values in label are
  considered right censored.\<close>

  The function writes into the frame it is given, so the model returns the caller's frame
  as the call leaves it, together with the returned frame or the exception raised.
  The second assignment evaluates its right-hand side first; both sides read the event
  column and the label column from the frame as the first assignment left it.
\<close>

definition survival_df ::
  "dataframe \<Rightarrow> string \<Rightarrow> string \<Rightarrow> string \<Rightarrow> string list \<Rightarrow> dataframe \<times> (error + dataframe)" where
  "survival_df data t_col e_col label_col exclude_col =
     (let x_cols = filter (\<lambda>c. c \<notin> set ([t_col, e_col] @ exclude_col)) (map fst (columns data))
      in case series_of data t_col of
           None \<Rightarrow> (data, Inl (KeyError t_col))
         | Some time_series \<Rightarrow>
             (case loc_setitem data label_col time_series of
                Inl err \<Rightarrow> (data, Inl err)
              | Inr data1 \<Rightarrow>
                  (case getitem data1 e_col of
                     None \<Rightarrow> (data1, Inl (KeyError e_col))
                   | Some es \<Rightarrow>
                       (case series_of data1 label_col of
                          None \<Rightarrow> (data1, Inl (KeyError label_col))
                        | Some label \<Rightarrow>
                            let mask = map (\<lambda>e. e = 0) es;
                                negated = map (negate (fst label)) (mask_get mask (snd label));
                                data2 = put_column data1 label_col
                                          (fst label, mask_set mask (snd label) negated)
                            in (data2, getitem_list data2 (x_cols @ [label_col]))))))"

text \<open>
  A valid survival table (section 3 of the specification): a well-formed frame that has
  the time and the event column, all times non-negative, every event indicator 0 or 1.
\<close>

definition valid_survival_table :: "dataframe \<Rightarrow> string \<Rightarrow> string \<Rightarrow> bool" where
  "valid_survival_table data t_col e_col \<longleftrightarrow>
     wf_dataframe data \<and>
     (case getitem data t_col of
        None \<Rightarrow> False
      | Some ts \<Rightarrow>
          (case getitem data e_col of
             None \<Rightarrow> False
           | Some es \<Rightarrow> list_all (\<lambda>t. 0 \<le> t) ts \<and> list_all (\<lambda>e. e = 0 \<or> e = 1) es))"

section \<open>\<^verbatim>\<open>survival_stats\<close>: the printed report\<close>

text \<open>
  A float as the report prints it: a finite value, an infinity or NaN.

  In \<^verbatim>\<open>1.0 * data[e_col].sum() / N\<close> the kind of number that \<^verbatim>\<open>sum()\<close> returns decides
  what a division by zero does. For an \<^verbatim>\<open>int64\<close> or \<^verbatim>\<open>float64\<close> column the sum is a numpy
  scalar (also for a column without rows, where it is 0), so the product is a
  \<^verbatim>\<open>numpy.float64\<close>, and dividing a \<^verbatim>\<open>numpy.float64\<close> by zero does not raise: it follows
  IEEE 754 and issues a \<^verbatim>\<open>RuntimeWarning\<close> only, so that \<^verbatim>\<open>0.0 / 0\<close> is NaN and
  \<^verbatim>\<open>x / 0\<close> is an infinity. For an \<^verbatim>\<open>object\<close> column the sum is a Python number (the
  \<^verbatim>\<open>int\<close> 0 for a column without rows), the product is a Python \<^verbatim>\<open>float\<close>, and dividing
  it by zero raises \<^verbatim>\<open>ZeroDivisionError\<close>. A finite quotient is kept exact.
\<close>

datatype number = Num rat | PosInf | NegInf | NaN

definition true_divide :: "dtype \<Rightarrow> rat \<Rightarrow> nat \<Rightarrow> error + number" where
  "true_divide d s n =
     (if n \<noteq> 0 then Inr (Num (s / of_nat n))
      else if d = Object then Inl ZeroDivisionError
      else Inr (if s = 0 then NaN else if 0 < s then PosInf else NegInf))"

text \<open>\<^verbatim>\<open>Series.min()\<close> and \<^verbatim>\<open>Series.max()\<close>: NaN on a column without rows, of any dtype.\<close>

definition series_min :: "rat list \<Rightarrow> number" where
  "series_min vs = (case vs of [] \<Rightarrow> NaN | v # rest \<Rightarrow> Num (fold min rest v))"

definition series_max :: "rat list \<Rightarrow> number" where
  "series_max vs = (case vs of [] \<Rightarrow> NaN | v # rest \<Rightarrow> Num (fold max rest v))"

text \<open>
  The lines written to standard output, one constructor per \<^verbatim>\<open>print\<close> of the source,
  each carrying the values that are formatted into it:
  \<^item> \<open>Banner\<close>: \<^verbatim>\<open>"--------------- Survival Data Statistics ---------------"\<close>
  \<^item> \<open>Rows n\<close>: \<^verbatim>\<open>"# Rows:", N\<close>
  \<^item> \<open>Columns k e t\<close>: \<^verbatim>\<open>"# Columns: %d + %s + %s" % (k, e, t)\<close>
  \<^item> \<open>EventsRatio r\<close>: \<^verbatim>\<open>"# Events Ratio: %.2f%%" % r\<close>, the value \<open>r\<close> shown with two
    decimals and followed by a percent sign
  \<^item> \<open>MinTime v\<close>, \<open>MaxTime v\<close>: \<^verbatim>\<open>"# Min Time:", v\<close> and \<^verbatim>\<open>"# Max Time:", v\<close>
  \<^item> \<open>Blank\<close>: the empty line.
\<close>

datatype line =
    Banner
  | Rows nat
  | Columns int string string
  | EventsRatio number
  | MinTime number
  | MaxTime number
  | Blank

text \<open>
  \<^verbatim>\<open>
  def survival_stats(data, t_col="t", e_col="e", plot=False):
      print("--------------- Survival Data Statistics ---------------")
      N = len(data)
      print("# Rows:", N)
      print("# Columns: %d + %s + %s" % (len(data.columns) - 2, e_col, t_col))
      print("# Events Ratio: %.2f%%" % (1.0 * data[e_col].sum() / N))
      print("# Min Time:", data[t_col].min())
      print("# Max Time:", data[t_col].max())
      print("")
      if plot:
          plot_km_survf(data, t_col="t", e_col="e")
  \<close>
  The result is the list of lines printed up to the return or the exception, and the
  outcome. \<^verbatim>\<open>plot_km_survf\<close> comes from the module \<^verbatim>\<open>vision\<close>, which is not among the
  modelled sources: it is a parameter that says whether the call raises.
\<close>

definition survival_stats ::
  "(dataframe \<Rightarrow> string \<Rightarrow> string \<Rightarrow> error option) \<Rightarrow>
   dataframe \<Rightarrow> string \<Rightarrow> string \<Rightarrow> bool \<Rightarrow> line list \<times> (error + unit)" where
  "survival_stats plot_km_survf data t_col e_col plot =
     (let N = index_len data;
          out3 = [Banner, Rows N, Columns (int (length (columns data)) - 2) e_col t_col]
      in case series_of data e_col of
           None \<Rightarrow> (out3, Inl (KeyError e_col))
         | Some events \<Rightarrow>
             (case true_divide (fst events) (1 * sum_list (snd events)) N of
                Inl err \<Rightarrow> (out3, Inl err)
              | Inr ratio \<Rightarrow>
                  let out4 = out3 @ [EventsRatio ratio]
                  in (case getitem data t_col of
                        None \<Rightarrow> (out4, Inl (KeyError t_col))
                      | Some ts \<Rightarrow>
                          let out7 = out4 @ [MinTime (series_min ts), MaxTime (series_max ts),
                                             Blank]
                          in if plot
                             then (case plot_km_survf data ''t'' ''e'' of
                                     Some err \<Rightarrow> (out7, Inl err)
                                   | None \<Rightarrow> (out7, Inr ()))
                             else (out7, Inr ()))))"

section \<open>\<^verbatim>\<open>load_simulated_data\<close> and its default configuration\<close>

text \<open>
  \<^verbatim>\<open>
  def load_simulated_data(hr_ratio, N=1000, num_features=10, num_var=2,
          average_death=5, end_time=15, method="gaussian",
          gaussian_config={}, seed=42):
      generator = SimulatedData(hr_ratio, average_death=average_death, end_time=end_time,
                                num_features=num_features, num_var=num_var)
      raw_data = generator.generate_data(N, method=method, gaussian_config=gaussian_config, seed=seed)
      df = pd.DataFrame(raw_data['x'], columns=['x_' + str(i) for i in range(num_features)])
      df['e'] = raw_data['e']
      df['t'] = raw_data['t']
      return df
  \<close>
  Python evaluates a default value once, when the \<^verbatim>\<open>def\<close> statement runs. The dict of
  \<^verbatim>\<open>gaussian_config={}\<close> is therefore one object; a call that omits the argument binds
  the parameter to that object. Dicts are objects in a store, addressed by references, and
  a callee that receives a reference may write through it.
\<close>

type_synonym ref = nat
type_synonym config = "(string \<times> rat) list"
type_synonym store = "ref \<Rightarrow> config option"

text \<open>The object created for the default, and the store right after the module is loaded.\<close>

definition gaussian_config_default :: ref where
  "gaussian_config_default = 0"

definition module_store :: store where
  "module_store = Map.empty(gaussian_config_default \<mapsto> [])"

record sim_args =
  hr_ratio :: rat
  arg_N :: nat
  num_features :: nat
  num_var :: nat
  average_death :: rat
  end_time :: rat
  arg_method :: string
  seed :: int

text \<open>
  The dict \<^verbatim>\<open>raw_data\<close> of numpy arrays that the simulator returns, for \<open>raw_len\<close>
  observations: the covariate matrix \<^verbatim>\<open>x\<close> of shape \<open>(raw_len, raw_width)\<close> with the cell
  of row \<open>i\<close> and column \<open>j\<close> at \<open>raw_x i j\<close>, and the event and time arrays \<^verbatim>\<open>e\<close> and
  \<^verbatim>\<open>t\<close> with one entry per observation, each array with its dtype.
\<close>

record raw_data =
  raw_len :: nat
  raw_width :: nat
  raw_x :: "nat \<Rightarrow> nat \<Rightarrow> rat"
  raw_e :: "nat \<Rightarrow> rat"
  raw_t :: "nat \<Rightarrow> rat"
  x_dtype :: dtype
  e_dtype :: dtype
  t_dtype :: dtype

text \<open>\<^verbatim>\<open>str(i)\<close> for a natural number: its decimal digits.\<close>

fun str_nat :: "nat \<Rightarrow> string" where
  "str_nat n =
     (if n < 10 then [''0123456789'' ! n]
      else str_nat (n div 10) @ [''0123456789'' ! (n mod 10)])"

declare str_nat.simps [simp del]

text \<open>
  \<^verbatim>\<open>pd.DataFrame(matrix, columns=names)\<close>, for a two-dimensional numpy array, raises
  \<^verbatim>\<open>ValueError\<close> unless the matrix has one column per name. \<^verbatim>\<open>df[c] = array\<close>, for an
  array with one entry per row of the frame, puts the array under the name \<open>c\<close> (as a
  new last column when the name is new). Raw data of another shape (nested lists of
  unequal lengths, or event and time arrays that are not as long as the matrix has rows)
  is not represented: the record above has one length for all three arrays.
\<close>

definition frame_of_matrix :: "raw_data \<Rightarrow> nat \<Rightarrow> error + dataframe" where
  "frame_of_matrix raw k =
     (if raw_width raw = k
      then Inr \<lparr>index_len = raw_len raw,
                columns = map (\<lambda>j. (''x_'' @ str_nat j,
                                     x_dtype raw, map (\<lambda>i. raw_x raw i j) [0..<raw_len raw]))
                            [0..<k]\<rparr>
      else Inl ValueError)"

definition setitem :: "dataframe \<Rightarrow> string \<Rightarrow> dtype \<Rightarrow> (nat \<Rightarrow> rat) \<Rightarrow> dataframe" where
  "setitem df c d array = put_column df c (d, map array [0..<index_len df])"

text \<open>
  \<^verbatim>\<open>SimulatedData\<close> comes from the module \<^verbatim>\<open>simulator\<close>, which is not among the modelled
  sources. Constructing the generator and calling \<^verbatim>\<open>generate_data\<close> is a parameter: from
  the store, the arguments and the reference of the configuration dict it yields the
  store it leaves and the raw data or an exception. The argument \<open>gaussian_config\<close> is
  \<open>None\<close> when the caller omits it.
\<close>

definition load_simulated_data ::
  "(store \<Rightarrow> sim_args \<Rightarrow> ref \<Rightarrow> store \<times> (error + raw_data)) \<Rightarrow>
   store \<Rightarrow> sim_args \<Rightarrow> ref option \<Rightarrow> store \<times> (error + dataframe)" where
  "load_simulated_data generate_data st args gaussian_config =
     (let cfg = (case gaussian_config of None \<Rightarrow> gaussian_config_default | Some r \<Rightarrow> r)
      in case generate_data st args cfg of
           (st', Inl err) \<Rightarrow> (st', Inl err)
         | (st', Inr raw) \<Rightarrow>
             (st',
              case frame_of_matrix raw (num_features args) of
                Inl err \<Rightarrow> Inl err
              | Inr df \<Rightarrow>
                  Inr (setitem (setitem df ''e'' (e_dtype raw) (raw_e raw))
                         ''t'' (t_dtype raw) (raw_t raw))))"

text \<open>
  Two collaborators used to run the model on concrete inputs: one that only reads (it
  returns one row per requested observation, whatever the configuration), and one that
  counts its calls in the configuration dict it is handed, which Python permits.
\<close>

definition constant_generator :: "store \<Rightarrow> sim_args \<Rightarrow> ref \<Rightarrow> store \<times> (error + raw_data)" where
  "constant_generator st args cfg =
     (st, Inr \<lparr>raw_len = arg_N args, raw_width = num_features args,
               raw_x = (\<lambda>i j. 0), raw_e = (\<lambda>i. 1), raw_t = (\<lambda>i. 1),
               x_dtype = Float64, e_dtype = Int64, t_dtype = Float64\<rparr>)"

definition counting_generator :: "store \<Rightarrow> sim_args \<Rightarrow> ref \<Rightarrow> store \<times> (error + raw_data)" where
  "counting_generator st args cfg =
     (let seen = (case st cfg of None \<Rightarrow> [] | Some d \<Rightarrow> d);
          calls = (case map_of seen ''calls'' of None \<Rightarrow> 0 | Some k \<Rightarrow> k)
      in (st(cfg \<mapsto> [(''calls'', calls + 1)]),
          Inr \<lparr>raw_len = arg_N args, raw_width = num_features args,
                raw_x = (\<lambda>i j. calls), raw_e = (\<lambda>i. 1), raw_t = (\<lambda>i. 1),
                x_dtype = Float64, e_dtype = Int64, t_dtype = Float64\<rparr>))"

text \<open>
  A client that calls \<^verbatim>\<open>load_simulated_data\<close> several times in a row, each call with
  its arguments and its optional configuration reference: the store is threaded through
  the calls, and the outcomes are collected in order.
\<close>

fun run_calls ::
  "(store \<Rightarrow> sim_args \<Rightarrow> ref \<Rightarrow> store \<times> (error + raw_data)) \<Rightarrow>
   store \<Rightarrow> (sim_args \<times> ref option) list \<Rightarrow> store \<times> (error + dataframe) list" where
  "run_calls generate_data st [] = (st, [])"
| "run_calls generate_data st (call # calls) =
     (case load_simulated_data generate_data st (fst call) (snd call) of
        (st', res) \<Rightarrow>
          (case run_calls generate_data st' calls of
             (st'', ress) \<Rightarrow> (st'', res # ress)))"

section \<open>Facts about the frame operations\<close>

lemma map_of_set_column: "map_of (set_column c s cols) = (map_of cols)(c \<mapsto> s)"
  by (induction cols) (auto simp: fun_eq_iff)

lemma set_column_twice: "set_column c s (set_column c s' cols) = set_column c s cols"
  by (induction cols) auto

lemma names_set_column:
  "map fst (set_column c s cols) =
     (if c \<in> set (map fst cols) then map fst cols else map fst cols @ [c])"
  by (induction cols) auto


lemma series_of_put_column:
  "series_of (put_column data c s) c' = (if c' = c then Some s else series_of data c')"
  by (simp add: series_of_def put_column_def map_of_set_column)

lemma getitem_put_column:
  "getitem (put_column data c s) c' = (if c' = c then Some (snd s) else getitem data c')"
  by (simp add: getitem_def series_of_put_column)

lemma put_column_twice: "put_column (put_column data c s') c s = put_column data c s"
  by (simp add: put_column_def set_column_twice)

lemma index_len_put_column: "index_len (put_column data c s) = index_len data"
  by (simp add: put_column_def)

lemma names_put_column:
  "map fst (columns (put_column data c s)) =
     (if c \<in> set (map fst (columns data)) then map fst (columns data)
      else map fst (columns data) @ [c])"
  by (simp add: put_column_def names_set_column)

lemma series_of_name:
  "series_of data c \<noteq> None \<longleftrightarrow> c \<in> set (map fst (columns data))"
  by (simp add: series_of_def map_of_eq_None_iff)

lemma getitem_series:
  "getitem data c = Some vs \<longleftrightarrow> (\<exists>d. series_of data c = Some (d, vs))"
  by (cases "series_of data c") (auto simp: getitem_def)

lemma dtype_of_series:
  "dtype_of data c = Some d \<longleftrightarrow> (\<exists>vs. series_of data c = Some (d, vs))"
  by (cases "series_of data c") (auto simp: dtype_of_def)

lemma mask_negate:
  "length ms = length vs \<Longrightarrow>
   mask_set ms vs (map f (mask_get ms vs)) = map2 (\<lambda>m v. if m then f v else v) ms vs"
  by (induction ms vs rule: list_induct2) auto

lemma select_columns_present:
  "\<forall>c \<in> set names. series_of data c \<noteq> None \<Longrightarrow>
   select_columns data names = Inr (map (\<lambda>c. (c, the (series_of data c))) names)"
  by (induction names) auto

lemma getitem_list_present:
  "\<forall>c \<in> set names. series_of data c \<noteq> None \<Longrightarrow>
   getitem_list data names =
     Inr \<lparr>index_len = index_len data, columns = map (\<lambda>c. (c, the (series_of data c))) names\<rparr>"
  by (simp add: getitem_list_def select_columns_present)

lemma wf_column_length:
  "wf_dataframe data \<Longrightarrow> series_of data c = Some (d, vs) \<Longrightarrow> length vs = index_len data"
  by (auto simp: wf_dataframe_def series_of_def list_all_iff dest: map_of_SomeD)

lemma wf_getitem_length:
  "wf_dataframe data \<Longrightarrow> getitem data c = Some vs \<Longrightarrow> length vs = index_len data"
  by (auto simp: getitem_series dest: wf_column_length)

lemma np_can_hold_length:
  "np_can_hold_element cd s = Some vs \<Longrightarrow> length vs = length (snd s)"
  by (auto simp: np_can_hold_element_def split: dtype.splits if_splits)

lemma np_can_hold_values:
  "np_can_hold_element cd (d, ts) = Some vs \<Longrightarrow>
   vs = (if cd = Float64 \<and> d = Int64 then map to_float64 ts else ts)"
  by (auto simp: np_can_hold_element_def split: dtype.splits if_splits)

lemma stored_series_values:
  "stored_series data c (d, ts) = Inr (d', st) \<Longrightarrow>
   st = (if d' = Float64 \<and> d = Int64 then map to_float64 ts else ts)"
  by (auto simp: stored_series_def split: option.splits if_splits dest!: np_can_hold_values)

lemma stored_series_length:
  "stored_series data c (d, ts) = Inr (d', st) \<Longrightarrow> length st = length ts"
  by (auto dest!: stored_series_values)


lemma stored_series_fits:
  assumes "label_fits data c d"
  shows "stored_series data c (d, ts) =
           Inr (case dtype_of data c of
                  None \<Rightarrow> (d, ts)
                | Some cd \<Rightarrow> (cd, if cd = Float64 \<and> d = Int64 then map to_float64 ts else ts))"
  using assms
  by (cases "series_of data c")
     (auto simp: label_fits_def dtype_of_def stored_series_def np_can_hold_element_def
           split: dtype.splits)

lemma stored_series_refused:
  "label_refused data c s \<Longrightarrow> stored_series data c s = Inl TypeError"
  by (cases "series_of data c")
     (auto simp: label_refused_def dtype_of_def stored_series_def np_can_hold_element_def
           split: dtype.splits)

lemma stored_series_error:
  assumes "stored_series data c (d, ts) = Inl err"
  shows "err = TypeError \<and> index_len data \<noteq> 0 \<and> c \<in> set (map fst (columns data)) \<and>
         \<not> label_fits data c d"
proof -
  obtain old where old: "series_of data c = Some old"
    using assms by (cases "series_of data c") (auto simp: stored_series_def)
  then have "c \<in> set (map fst (columns data))"
    using series_of_name [of data c] by simp
  moreover have "err = TypeError \<and> index_len data \<noteq> 0 \<and> \<not> label_fits data c d"
    using assms old
    by (auto simp: stored_series_def label_fits_def dtype_of_def np_can_hold_element_def
             split: option.splits if_splits dtype.splits)
  ultimately show ?thesis by simp
qed

section \<open>What \<^verbatim>\<open>survival_df\<close> computes\<close>

lemma survival_df_time_missing:
  "series_of data t_col = None \<Longrightarrow>
   survival_df data t_col e_col label_col exclude_col = (data, Inl (KeyError t_col))"
  by (simp add: survival_df_def)

lemma survival_df_write_refused:
  "series_of data t_col = Some s \<Longrightarrow> stored_series data label_col s = Inl err \<Longrightarrow>
   survival_df data t_col e_col label_col exclude_col = (data, Inl err)"
  by (simp add: survival_df_def loc_setitem_def)

lemma survival_df_event_missing:
  "series_of data t_col = Some s \<Longrightarrow> stored_series data label_col s = Inr s' \<Longrightarrow>
   getitem (put_column data label_col s') e_col = None \<Longrightarrow>
   survival_df data t_col e_col label_col exclude_col =
     (put_column data label_col s', Inl (KeyError e_col))"
  by (simp add: survival_df_def loc_setitem_def)

lemma survival_df_success:
  assumes t: "series_of data t_col = Some s"
      and w: "stored_series data label_col s = Inr (d, st)"
      and e: "getitem (put_column data label_col (d, st)) e_col = Some es"
      and len: "length es = length st"
  shows "survival_df data t_col e_col label_col exclude_col =
    (put_column data label_col (d, map2 (\<lambda>e v. if e = 0 then negate d v else v) es st),
     Inr \<lparr>index_len = index_len data,
          columns =
            map (\<lambda>c. (c, the (series_of
                                (put_column data label_col
                                   (d, map2 (\<lambda>e v. if e = 0 then negate d v else v) es st)) c)))
              (filter (\<lambda>c. c \<notin> set ([t_col, e_col] @ exclude_col)) (map fst (columns data))
               @ [label_col])\<rparr>)"
proof -
  let ?data1 = "put_column data label_col (d, st)"
  let ?mask = "map (\<lambda>e. e = 0) es"
  let ?labels = "map2 (\<lambda>e v. if e = (0::rat) then negate d v else v) es st"
  let ?data2 = "put_column data label_col (d, ?labels)"
  let ?names = "filter (\<lambda>c. c \<notin> set ([t_col, e_col] @ exclude_col)) (map fst (columns data))
               @ [label_col]"
  have l: "series_of ?data1 label_col = Some (d, st)"
    by (simp add: series_of_put_column)
  have "mask_set ?mask st (map (negate d) (mask_get ?mask st)) =
        map2 (\<lambda>m v. if m then negate d v else v) ?mask st"
    using len by (simp add: mask_negate)
  also have "\<dots> = ?labels"
    by (simp add: zip_map1 case_prod_unfold)
  finally have m: "mask_set ?mask st (map (negate d) (mask_get ?mask st)) = ?labels" .
  have "\<forall>c \<in> set ?names. series_of ?data2 c \<noteq> None"
    using series_of_name [of data] by (auto simp: series_of_put_column)
  then have g: "getitem_list ?data2 ?names =
      Inr \<lparr>index_len = index_len ?data2,
            columns = map (\<lambda>c. (c, the (series_of ?data2 c))) ?names\<rparr>"
    by (rule getitem_list_present)
  show ?thesis
    unfolding survival_df_def Let_def loc_setitem_def
    by (simp only: t w e l m g option.case sum.case fst_conv snd_conv put_column_twice
        index_len_put_column)
qed

lemma columns_from_names:
  "distinct (map fst cols) \<Longrightarrow>
   map (\<lambda>c. (c, the (map_of cols c))) (filter P (map fst cols)) = filter (\<lambda>col. P (fst col)) cols"
proof (induction cols)
  case Nil
  then show ?case by simp
next
  case (Cons col cols)
  have "map (\<lambda>c. (c, the (map_of (col # cols) c))) (filter P (map fst cols)) =
        map (\<lambda>c. (c, the (map_of cols c))) (filter P (map fst cols))"
    using Cons.prems by auto
  with Cons show ?case by (cases col) auto
qed

lemma covariates_untouched:
  assumes "distinct (map fst (columns data))"
      and "label_col \<notin> set (filter P (map fst (columns data)))"
  shows "map (\<lambda>c. (c, the (series_of (put_column data label_col s) c)))
           (filter P (map fst (columns data)))
         = filter (\<lambda>col. P (fst col)) (columns data)"
proof -
  have "series_of (put_column data label_col s) c = map_of (columns data) c"
    if "c \<in> set (filter P (map fst (columns data)))" for c
    using that assms(2) by (auto simp: series_of_put_column) (simp_all add: series_of_def)
  then have "map (\<lambda>c. (c, the (series_of (put_column data label_col s) c)))
               (filter P (map fst (columns data)))
        = map (\<lambda>c. (c, the (map_of (columns data) c))) (filter P (map fst (columns data)))"
    by (intro map_cong refl) simp
  then show ?thesis
    using assms(1) by (simp add: columns_from_names)
qed

text \<open>
  The outcome of a call on a well-formed frame that has the time and the event column:
  either the first assignment is refused and the frame is as before, or the call returns.
  In the latter case \<open>st\<close> are the times as the label column holds them after the first
  assignment, \<open>d\<close> is the dtype of that column, and the events are read after that
  assignment, so that they are the stored times when \<open>label_col\<close> is \<open>e_col\<close>.
\<close>

lemma survival_df_present:
  fixes label_col :: string
  assumes wf: "wf_dataframe data"
      and t: "series_of data t_col = Some (d_t, ts)"
      and e: "getitem data e_col = Some es"
      and w: "stored_series data label_col (d_t, ts) = Inr (d, st)"
  defines "ls \<equiv> map2 (\<lambda>e v. if e = 0 then negate d v else v)
                  (if e_col = label_col then st else es) st"
  shows "survival_df data t_col e_col label_col exclude_col =
    (put_column data label_col (d, ls),
     Inr \<lparr>index_len = index_len data,
          columns =
            map (\<lambda>c. (c, the (series_of (put_column data label_col (d, ls)) c)))
              (filter (\<lambda>c. c \<notin> set ([t_col, e_col] @ exclude_col)) (map fst (columns data)))
            @ [(label_col, d, ls)]\<rparr>)"
proof -
  let ?es = "if e_col = label_col then st else es"
  have e1: "getitem (put_column data label_col (d, st)) e_col = Some ?es"
    using e by (simp add: getitem_put_column)
  have "length st = length ts"
    using w by (rule stored_series_length)
  then have len: "length ?es = length st"
    using wf t e by (simp add: wf_column_length wf_getitem_length)
  show ?thesis
    using survival_df_success [OF t w e1 len, of exclude_col]
    by (simp add: ls_def series_of_put_column)
qed

lemma survival_df_outcome:
  assumes wf: "wf_dataframe data"
      and t: "series_of data t_col = Some (d_t, ts)"
      and e: "getitem data e_col = Some es"
  shows "(\<exists>err. stored_series data label_col (d_t, ts) = Inl err \<and>
               survival_df data t_col e_col label_col exclude_col = (data, Inl err)) \<or>
         (\<exists>d st out. stored_series data label_col (d_t, ts) = Inr (d, st) \<and>
               survival_df data t_col e_col label_col exclude_col =
                 (put_column data label_col
                    (d, map2 (\<lambda>e v. if e = 0 then negate d v else v)
                          (if e_col = label_col then st else es) st), Inr out))"
proof (cases "stored_series data label_col (d_t, ts)")
  case (Inl err)
  then show ?thesis
    using survival_df_write_refused [OF t Inl] by simp
next
  case (Inr s')
  obtain d st where "s' = (d, st)"
    by (cases s')
  with Inr have w: "stored_series data label_col (d_t, ts) = Inr (d, st)"
    by simp
  show ?thesis
    using survival_df_present [OF wf t e w, of exclude_col] w by simp
qed

lemma label_row:
  assumes "i < length st" "length es = length st"
  shows "map2 (\<lambda>e v. if e = (0::rat) then negate d v else v) es st ! i
           = (if es ! i = 0 then negate d (st ! i) else st ! i)"
  using assms by simp

section \<open>Properties of the label encoding\<close>

lemma series_of_parts:
  "getitem data c = Some vs \<Longrightarrow> dtype_of data c = Some d \<Longrightarrow> series_of data c = Some (d, vs)"
  by (cases "series_of data c") (auto simp: getitem_def dtype_of_def)

lemma survival_df_returns:
  assumes "wf_dataframe data"
      and "series_of data t_col = Some (d_t, ts)"
      and "getitem data e_col = Some es"
      and "survival_df data t_col e_col label_col exclude_col = (data', Inr out)"
  obtains d st where
    "stored_series data label_col (d_t, ts) = Inr (d, st)"
    "st = (if d = Float64 \<and> d_t = Int64 then map to_float64 ts else ts)"
    "data' = put_column data label_col
               (d, map2 (\<lambda>e v. if e = 0 then negate d v else v)
                     (if e_col = label_col then st else es) st)"
    "out = \<lparr>index_len = index_len data,
            columns =
              map (\<lambda>c. (c, the (series_of data' c)))
                (filter (\<lambda>c. c \<notin> set ([t_col, e_col] @ exclude_col)) (map fst (columns data)))
              @ [(label_col, d,
                  map2 (\<lambda>e v. if e = 0 then negate d v else v)
                    (if e_col = label_col then st else es) st)]\<rparr>"
proof (cases "stored_series data label_col (d_t, ts)")
  case (Inl err)
  then show ?thesis
    using survival_df_write_refused [OF assms(2) Inl, of e_col exclude_col] assms(4) by simp
next
  case (Inr s')
  obtain d st where s': "s' = (d, st)"
    by (cases s')
  with Inr have w: "stored_series data label_col (d_t, ts) = Inr (d, st)"
    by simp
  note eq = survival_df_present [OF assms(1-3) w, of exclude_col]
  show ?thesis
  proof (rule that [of d st])
    show "stored_series data label_col (d_t, ts) = Inr (d, st)"
      by (rule w)
    show "st = (if d = Float64 \<and> d_t = Int64 then map to_float64 ts else ts)"
      using w by (rule stored_series_values)
    show "data' = put_column data label_col
               (d, map2 (\<lambda>e v. if e = 0 then negate d v else v)
                     (if e_col = label_col then st else es) st)"
      using eq assms(4) by simp
    then show "out = \<lparr>index_len = index_len data,
            columns =
              map (\<lambda>c. (c, the (series_of data' c)))
                (filter (\<lambda>c. c \<notin> set ([t_col, e_col] @ exclude_col)) (map fst (columns data)))
              @ [(label_col, d,
                  map2 (\<lambda>e v. if e = 0 then negate d v else v)
                    (if e_col = label_col then st else es) st)]\<rparr>"
      using eq assms(4) by simp
  qed
qed

lemma survival_df_fits_returns:
  assumes "wf_dataframe data"
      and "series_of data t_col = Some (d_t, ts)"
      and "getitem data e_col = Some es"
      and "label_fits data label_col d_t"
  shows "\<exists>data' out. survival_df data t_col e_col label_col exclude_col = (data', Inr out)"
proof -
  obtain d st where "stored_series data label_col (d_t, ts) = Inr (d, st)"
    using stored_series_fits [OF assms(4), of ts] by (cases "dtype_of data label_col") auto
  then show ?thesis
    using survival_df_present [OF assms(1-3), of label_col d st exclude_col] by simp
qed




lemma output_layout:
  assumes "wf_dataframe data"
      and "label_col \<notin> set (filter (\<lambda>c. c \<notin> set ([t_col, e_col] @ exclude_col))
                               (map fst (columns data)))"
  shows "map (\<lambda>c. (c, the (series_of (put_column data label_col s) c)))
           (filter (\<lambda>c. c \<notin> set ([t_col, e_col] @ exclude_col)) (map fst (columns data)))
         = filter (\<lambda>col. fst col \<notin> set ([t_col, e_col] @ exclude_col)) (columns data)"
  using assms covariates_untouched [of data label_col "\<lambda>c. c \<notin> set ([t_col, e_col] @ exclude_col)" s]
  by (simp add: wf_dataframe_def)

text \<open>
  C3. For every valid input (a well-formed frame that has the time and event columns,
  and a \<open>label_col\<close> that is not the name of a retained covariate), the frame returned by
  \<^verbatim>\<open>survival_df\<close> consists of exactly the input's columns other than \<open>t_col\<close>, \<open>e_col\<close>
  and the names in \<open>exclude_col\<close>, unchanged and in their original order, followed by the
  label column as the last column; it has as many rows as the input. This holds of every
  call that returns, and the call returns whenever the label fits, in particular when
  \<open>label_col\<close> is a new name.
\<close>

theorem survival_df_output_columns:
  assumes "wf_dataframe data"
      and "getitem data t_col = Some ts"
      and "dtype_of data t_col = Some d_t"
      and "getitem data e_col = Some es"
      and "label_col \<notin> set (filter (\<lambda>c. c \<notin> set ([t_col, e_col] @ exclude_col))
                               (map fst (columns data)))"
  shows "(label_fits data label_col d_t \<longrightarrow>
            (\<exists>data' out d ls.
               survival_df data t_col e_col label_col exclude_col = (data', Inr out) \<and>
               columns out =
                 filter (\<lambda>col. fst col \<notin> set ([t_col, e_col] @ exclude_col)) (columns data)
                 @ [(label_col, d, ls)] \<and>
               index_len out = index_len data)) \<and>
         (\<forall>data' out.
            survival_df data t_col e_col label_col exclude_col = (data', Inr out) \<longrightarrow>
            (\<exists>d ls.
               columns out =
                 filter (\<lambda>col. fst col \<notin> set ([t_col, e_col] @ exclude_col)) (columns data)
                 @ [(label_col, d, ls)] \<and>
               index_len out = index_len data))"
proof -
  note t = series_of_parts [OF assms(2,3)]
  have returns: "\<exists>d ls.
        columns out =
          filter (\<lambda>col. fst col \<notin> set ([t_col, e_col] @ exclude_col)) (columns data)
          @ [(label_col, d, ls)] \<and>
        index_len out = index_len data"
    if run: "survival_df data t_col e_col label_col exclude_col = (data', Inr out)"
    for data' out
  proof (rule survival_df_returns [OF assms(1) t assms(4) run])
    fix d st
    let ?ls = "map2 (\<lambda>e v. if e = 0 then negate d v else v)
                 (if e_col = label_col then st else es) st"
    assume data': "data' = put_column data label_col (d, ?ls)"
      and out: "out = \<lparr>index_len = index_len data,
            columns =
              map (\<lambda>c. (c, the (series_of data' c)))
                (filter (\<lambda>c. c \<notin> set ([t_col, e_col] @ exclude_col)) (map fst (columns data)))
              @ [(label_col, d, ?ls)]\<rparr>"
    have "columns out =
          filter (\<lambda>col. fst col \<notin> set ([t_col, e_col] @ exclude_col)) (columns data)
          @ [(label_col, d, ?ls)]"
      unfolding out data' using output_layout [OF assms(1,5)] by simp
    moreover have "index_len out = index_len data"
      unfolding out by simp
    ultimately show ?thesis
      by blast
  qed
  show ?thesis
  proof (intro conjI impI allI)
    assume "label_fits data label_col d_t"
    then obtain data' out where run:
      "survival_df data t_col e_col label_col exclude_col = (data', Inr out)"
      using survival_df_fits_returns [OF assms(1) t assms(4)] by blast
    with returns [OF run] show "\<exists>data' out d ls.
               survival_df data t_col e_col label_col exclude_col = (data', Inr out) \<and>
               columns out =
                 filter (\<lambda>col. fst col \<notin> set ([t_col, e_col] @ exclude_col)) (columns data)
                 @ [(label_col, d, ls)] \<and>
               index_len out = index_len data"
      by blast
  next
    fix data' out
    assume "survival_df data t_col e_col label_col exclude_col = (data', Inr out)"
    then show "\<exists>d ls.
               columns out =
                 filter (\<lambda>col. fst col \<notin> set ([t_col, e_col] @ exclude_col)) (columns data)
                 @ [(label_col, d, ls)] \<and>
               index_len out = index_len data"
      by (rule returns)
  qed
qed

theorem survival_df_output_columns_witness:
  "wf_dataframe
     \<lparr>index_len = 2,
      columns = [(''x_0'', Float64, [1, 3]), (''id'', Int64, [8, 9]), (''t'', Int64, [5, 10]),
                 (''x_1'', Float64, [2, 4]), (''e'', Int64, [1, 0])]\<rparr> \<and>
   label_fits
     \<lparr>index_len = 2,
      columns = [(''x_0'', Float64, [1, 3]), (''id'', Int64, [8, 9]), (''t'', Int64, [5, 10]),
                 (''x_1'', Float64, [2, 4]), (''e'', Int64, [1, 0])]\<rparr> ''Y'' Int64 \<and>
   (\<exists>data' out d ls.
      survival_df
        \<lparr>index_len = 2,
         columns = [(''x_0'', Float64, [1, 3]), (''id'', Int64, [8, 9]), (''t'', Int64, [5, 10]),
                    (''x_1'', Float64, [2, 4]), (''e'', Int64, [1, 0])]\<rparr>
        ''t'' ''e'' ''Y'' [''id''] = (data', Inr out) \<and>
      columns out = [(''x_0'', Float64, [1, 3]), (''x_1'', Float64, [2, 4]), (''Y'', d, ls)] \<and>
      index_len out = 2)"
proof -
  let ?d = "\<lparr>index_len = 2,
      columns = [(''x_0'', Float64, [1, 3]), (''id'', Int64, [8, 9]), (''t'', Int64, [5, 10]),
                 (''x_1'', Float64, [2, 4]), (''e'', Int64, [1, 0::rat])]\<rparr>"
  have wf: "wf_dataframe ?d"
    by (simp add: wf_dataframe_def is_int64_def)
  have t: "getitem ?d ''t'' = Some [5, 10]" and dt: "dtype_of ?d ''t'' = Some Int64"
    and e: "getitem ?d ''e'' = Some [1, 0]"
    by (simp_all add: getitem_def dtype_of_def series_of_def)
  have f: "label_fits ?d ''Y'' Int64"
    by (simp add: label_fits_def dtype_of_def series_of_def)
  show ?thesis
    using wf f survival_df_output_columns [OF wf t dt e, of "''Y''" "[''id'']"] by simp
qed

lemma fractional_not_int64: "\<not> is_int64 (21 / 2)"
  by code_simp





text \<open>
  C8, as the code has it. \<^verbatim>\<open>survival_df\<close> has no check on \<open>label_col\<close> and never raises
  a duplicate-column error. Let the frame have the time and event columns and let
  \<open>label_col\<close> be the name of a retained covariate. If the label fits (the covariate has
  the dtype of the times, or is an \<^verbatim>\<open>object\<close> column, or is \<^verbatim>\<open>float64\<close> while the times are
  \<^verbatim>\<open>int64\<close>), the call returns: the covariate is overwritten where it stands in the
  caller's frame by the label values, in the covariate's dtype, and the returned frame
  lists the name twice, at the covariate's place and as the last column, both times
  holding the label values; the covariate's own values are lost. If the label is
  refused, the call raises \<^verbatim>\<open>TypeError\<close> and the caller's frame is as before.
\<close>

theorem survival_df_label_collision:
  assumes "wf_dataframe data"
      and "getitem data t_col = Some ts"
      and "dtype_of data t_col = Some d_t"
      and "getitem data e_col = Some es"
      and "label_col \<in> set (filter (\<lambda>c. c \<notin> set ([t_col, e_col] @ exclude_col))
                               (map fst (columns data)))"
  shows "(label_fits data label_col d_t \<longrightarrow>
            (\<exists>data' out d st ls.
               survival_df data t_col e_col label_col exclude_col = (data', Inr out) \<and>
               dtype_of data label_col = Some d \<and>
               st = (if d = Float64 \<and> d_t = Int64 then map to_float64 ts else ts) \<and>
               ls = map2 (\<lambda>e v. if e = 0 then negate d v else v) es st \<and>
               data' = put_column data label_col (d, ls) \<and>
               map fst (columns data') = map fst (columns data) \<and>
               map fst (columns out) =
                 filter (\<lambda>c. c \<notin> set ([t_col, e_col] @ exclude_col)) (map fst (columns data))
                 @ [label_col] \<and>
               \<not> distinct (map fst (columns out)) \<and>
               (\<forall>col \<in> set (columns out). fst col = label_col \<longrightarrow> snd col = (d, ls)))) \<and>
         (label_refused data label_col (d_t, ts) \<longrightarrow>
            survival_df data t_col e_col label_col exclude_col = (data, Inl TypeError))"
proof (intro conjI impI)
  note t = series_of_parts [OF assms(2,3)]
  have ne: "e_col \<noteq> label_col" and ex: "label_col \<in> set (map fst (columns data))"
    using assms(5) by auto
  {
    assume f: "label_fits data label_col d_t"
    obtain d where d: "dtype_of data label_col = Some d"
      using ex series_of_name [of data label_col]
      by (cases "series_of data label_col") (auto simp: dtype_of_def)
    let ?st = "if d = Float64 \<and> d_t = Int64 then map to_float64 ts else ts"
    let ?ls = "map2 (\<lambda>e v. if e = 0 then negate d v else v) es ?st"
    let ?data' = "put_column data label_col (d, ?ls)"
    let ?names = "filter (\<lambda>c. c \<notin> set ([t_col, e_col] @ exclude_col)) (map fst (columns data))"
    let ?out = "\<lparr>index_len = index_len data,
                 columns = map (\<lambda>c. (c, the (series_of ?data' c))) ?names
                           @ [(label_col, d, ?ls)]\<rparr>"
    have w: "stored_series data label_col (d_t, ts) = Inr (d, ?st)"
      using stored_series_fits [OF f, of ts] d by simp
    have run: "survival_df data t_col e_col label_col exclude_col = (?data', Inr ?out)"
      using survival_df_present [OF assms(1) t assms(4) w, of exclude_col] ne by simp
    have r1: "map fst (columns ?data') = map fst (columns data)"
      using ex by (simp add: names_put_column)
    have r2: "map fst (columns ?out) = ?names @ [label_col]"
      by (simp add: comp_def)
    have r3: "\<not> distinct (map fst (columns ?out))"
      unfolding r2 using assms(5) by simp
    have r4: "\<forall>col \<in> set (columns ?out). fst col = label_col \<longrightarrow> snd col = (d, ?ls)"
      by (auto simp: series_of_put_column)
    show "\<exists>data' out d st ls.
               survival_df data t_col e_col label_col exclude_col = (data', Inr out) \<and>
               dtype_of data label_col = Some d \<and>
               st = (if d = Float64 \<and> d_t = Int64 then map to_float64 ts else ts) \<and>
               ls = map2 (\<lambda>e v. if e = 0 then negate d v else v) es st \<and>
               data' = put_column data label_col (d, ls) \<and>
               map fst (columns data') = map fst (columns data) \<and>
               map fst (columns out) =
                 filter (\<lambda>c. c \<notin> set ([t_col, e_col] @ exclude_col)) (map fst (columns data))
                 @ [label_col] \<and>
               \<not> distinct (map fst (columns out)) \<and>
               (\<forall>col \<in> set (columns out). fst col = label_col \<longrightarrow> snd col = (d, ls))"
      by (rule exI [of _ ?data'], rule exI [of _ ?out], rule exI [of _ d],
          rule exI [of _ ?st], rule exI [of _ ?ls])
         (intro conjI; (rule run d refl r1 r2 r3 r4))
  next
    assume "label_refused data label_col (d_t, ts)"
    then have "stored_series data label_col (d_t, ts) = Inl TypeError"
      by (rule stored_series_refused)
    then show "survival_df data t_col e_col label_col exclude_col = (data, Inl TypeError)"
      using t by (simp add: survival_df_write_refused)
  }
qed

theorem survival_df_label_collision_witness:
  "wf_dataframe
     \<lparr>index_len = 2,
      columns = [(''x'', Int64, [7, 8]), (''t'', Int64, [10, 3]), (''e'', Int64, [0, 1])]\<rparr> \<and>
   label_fits
     \<lparr>index_len = 2,
      columns = [(''x'', Int64, [7, 8]), (''t'', Int64, [10, 3]), (''e'', Int64, [0, 1])]\<rparr>
     ''x'' Int64 \<and>
   fst (survival_df
     \<lparr>index_len = 2,
      columns = [(''x'', Int64, [7, 8]), (''t'', Int64, [10, 3]), (''e'', Int64, [0, 1])]\<rparr>
     ''t'' ''e'' ''x'' []) =
     put_column
       \<lparr>index_len = 2,
        columns = [(''x'', Int64, [7, 8]), (''t'', Int64, [10, 3]), (''e'', Int64, [0, 1])]\<rparr>
       ''x'' (Int64, [- 10, 3]) \<and>
   wf_dataframe
     \<lparr>index_len = 2,
      columns = [(''x'', Int64, [7, 8]), (''t'', Float64, [21 / 2, 3]),
                 (''e'', Int64, [0, 1])]\<rparr> \<and>
   label_refused
     \<lparr>index_len = 2,
      columns = [(''x'', Int64, [7, 8]), (''t'', Float64, [21 / 2, 3]),
                 (''e'', Int64, [0, 1])]\<rparr> ''x'' (Float64, [21 / 2, 3]) \<and>
   survival_df
     \<lparr>index_len = 2,
      columns = [(''x'', Int64, [7, 8]), (''t'', Float64, [21 / 2, 3]),
                 (''e'', Int64, [0, 1])]\<rparr> ''t'' ''e'' ''x'' [] =
     (\<lparr>index_len = 2,
       columns = [(''x'', Int64, [7, 8]), (''t'', Float64, [21 / 2, 3]),
                  (''e'', Int64, [0, 1])]\<rparr>, Inl TypeError)"
proof -
  let ?d = "\<lparr>index_len = 2,
      columns = [(''x'', Int64, [7, 8]), (''t'', Int64, [10, 3]), (''e'', Int64, [0, 1::rat])]\<rparr>"
  let ?d' = "\<lparr>index_len = 2,
      columns = [(''x'', Int64, [7, 8]), (''t'', Float64, [21 / 2, 3]),
                 (''e'', Int64, [0, 1::rat])]\<rparr>"
  have wf: "wf_dataframe ?d" and wf': "wf_dataframe ?d'"
    by (simp_all add: wf_dataframe_def is_int64_def)
  have t: "getitem ?d ''t'' = Some [10, 3]" and dt: "dtype_of ?d ''t'' = Some Int64"
    and e: "getitem ?d ''e'' = Some [0, 1]"
    and t': "getitem ?d' ''t'' = Some [21 / 2, 3]" and dt': "dtype_of ?d' ''t'' = Some Float64"
    and e': "getitem ?d' ''e'' = Some [0, 1]"
    by (simp_all add: getitem_def dtype_of_def series_of_def)
  have f: "label_fits ?d ''x'' Int64"
    by (simp add: label_fits_def dtype_of_def series_of_def)
  have r: "label_refused ?d' ''x'' (Float64, [21 / 2, 3])"
    by (simp add: label_refused_def dtype_of_def series_of_def fractional_not_int64)
  have x: "dtype_of ?d ''x'' = Some Int64"
    by (simp add: dtype_of_def series_of_def)
  have m: "''x'' \<in> set (filter (\<lambda>c. c \<notin> set ([''t'', ''e''] @ []))
                             (map fst (columns ?d)))"
    and m': "''x'' \<in> set (filter (\<lambda>c. c \<notin> set ([''t'', ''e''] @ []))
                             (map fst (columns ?d')))"
    by simp_all
  have 1: "fst (survival_df ?d ''t'' ''e'' ''x'' []) = put_column ?d ''x'' (Int64, [- 10, 3])"
    using survival_df_label_collision [OF wf t dt e m, THEN conjunct1, rule_format, OF f] x
    apply (elim exE conjE)
    apply (simp add: negate_def)
    done
  have 2: "survival_df ?d' ''t'' ''e'' ''x'' [] = (?d', Inl TypeError)"
    by (rule survival_df_label_collision [OF wf' t' dt' e' m', THEN conjunct2, rule_format,
        OF r])
  show ?thesis
    by (intro conjI; (rule wf f 1 wf' r 2))
qed

text \<open>
  With the \<^verbatim>\<open>int64\<close> covariate \<open>x\<close> as label name and \<^verbatim>\<open>int64\<close> times, the call returns a
  frame with two columns named \<open>x\<close>, both holding the labels; the covariate values 7 and
  8 are gone, also from the caller's frame.
\<close>

theorem survival_df_label_collision_counterexample:
  "survival_df
     \<lparr>index_len = 2,
      columns = [(''x'', Int64, [7, 8]), (''t'', Int64, [10, 3]), (''e'', Int64, [0, 1])]\<rparr>
     ''t'' ''e'' ''x'' [] =
     (\<lparr>index_len = 2,
       columns = [(''x'', Int64, [- 10, 3]), (''t'', Int64, [10, 3]), (''e'', Int64, [0, 1])]\<rparr>,
      Inr \<lparr>index_len = 2, columns = [(''x'', Int64, [- 10, 3]), (''x'', Int64, [- 10, 3])]\<rparr>)"
  by (simp add: survival_df_def series_of_def getitem_def loc_setitem_def stored_series_def
      np_can_hold_element_def put_column_def getitem_list_def negate_def)

section \<open>Properties of the report\<close>

text \<open>
  C4. For every non-empty frame that has the event column, the fourth line
  \<^verbatim>\<open>survival_stats\<close> prints is the events-ratio line, and the value formatted into its
  \<^verbatim>\<open>%.2f%%\<close> is the sum of the event column divided by the number of rows, not
  multiplied by 100: for 100 rows with 30 events the value is 3/10 (shown as 0.30), not 30.
  It is the only events-ratio line of the report.
\<close>

theorem survival_stats_events_ratio:
  assumes "index_len data \<noteq> 0"
      and "getitem data e_col = Some es"
  shows "3 < length (fst (survival_stats plot_km_survf data t_col e_col plot)) \<and>
         fst (survival_stats plot_km_survf data t_col e_col plot) ! 3 =
           EventsRatio (Num (sum_list es / of_nat (index_len data))) \<and>
         (\<forall>r. EventsRatio r \<in> set (fst (survival_stats plot_km_survf data t_col e_col plot)) \<longrightarrow>
              r = Num (sum_list es / of_nat (index_len data)))"
proof -
  obtain d where e: "series_of data e_col = Some (d, es)"
    using assms(2) by (auto simp: getitem_series)
  have r: "true_divide d (1 * sum_list es) (index_len data) =
             Inr (Num (sum_list es / of_nat (index_len data)))"
    using assms(1) by (simp add: true_divide_def)
  show ?thesis
    using e r
    by (cases "getitem data t_col") (simp_all add: survival_stats_def Let_def split: option.splits)
qed

theorem survival_stats_events_ratio_witness:
  "index_len \<lparr>index_len = 100,
              columns = [(''t'', Float64, replicate 100 1),
                         (''e'', Int64, replicate 30 1 @ replicate 70 0)]\<rparr> \<noteq> 0 \<and>
   sum_list (replicate 30 1 @ replicate 70 (0::rat)) = 30 \<and>
   fst (survival_stats (\<lambda>d t e. None)
          \<lparr>index_len = 100,
           columns = [(''t'', Float64, replicate 100 1),
                      (''e'', Int64, replicate 30 1 @ replicate 70 0)]\<rparr>
          ''t'' ''e'' False) ! 3 = EventsRatio (Num (3 / 10)) \<and>
   EventsRatio (Num (3 / 10)) \<noteq> EventsRatio (Num 30)"
proof -
  let ?d = "\<lparr>index_len = 100,
             columns = [(''t'', Float64, replicate 100 1),
                        (''e'', Int64, replicate 30 1 @ replicate 70 (0::rat))]\<rparr>"
  have n: "index_len ?d \<noteq> 0"
    by simp
  have e: "getitem ?d ''e'' = Some (replicate 30 1 @ replicate 70 0)"
    by (simp add: getitem_def series_of_def)
  have s: "sum_list (replicate 30 1 @ replicate 70 (0::rat)) = 30"
    by (simp add: sum_list_replicate)
  show ?thesis
    using n s survival_stats_events_ratio [OF n e, of "\<lambda>d t e. None" "''t''" False]
    by simp
qed

text \<open>
  C5, as the code has it. \<^verbatim>\<open>survival_stats\<close> has no check for an empty frame; what
  happens on a frame without rows that has the time and event columns depends on the
  dtype of the event column. If it is \<^verbatim>\<open>object\<close>, the division raises
  \<^verbatim>\<open>ZeroDivisionError\<close>, after the heading, the row count and the column count have been
  printed. If it is \<^verbatim>\<open>int64\<close> or \<^verbatim>\<open>float64\<close>, nothing is raised: the report is printed
  in full, with row count 0 and NaN as the events ratio, the minimum and the maximum
  time, and the call returns normally when no plot is asked for.
\<close>

theorem survival_stats_zero_rows:
  assumes "wf_dataframe data"
      and "index_len data = 0"
      and "getitem data t_col = Some ts"
      and "getitem data e_col = Some es"
      and "dtype_of data e_col = Some d_e"
  shows "(d_e = Object \<longrightarrow>
            survival_stats plot_km_survf data t_col e_col plot =
              ([Banner, Rows 0, Columns (int (length (columns data)) - 2) e_col t_col],
               Inl ZeroDivisionError)) \<and>
         (d_e \<noteq> Object \<longrightarrow>
            fst (survival_stats plot_km_survf data t_col e_col plot) =
              [Banner, Rows 0, Columns (int (length (columns data)) - 2) e_col t_col,
               EventsRatio NaN, MinTime NaN, MaxTime NaN, Blank] \<and>
            survival_stats plot_km_survf data t_col e_col False =
              ([Banner, Rows 0, Columns (int (length (columns data)) - 2) e_col t_col,
                EventsRatio NaN, MinTime NaN, MaxTime NaN, Blank], Inr ()))"
proof -
  have "length ts = 0" "length es = 0"
    using assms(1-4) wf_getitem_length by fastforce+
  then have empty: "ts = []" "es = []"
    by simp_all
  have e: "series_of data e_col = Some (d_e, [])"
    using assms(4,5) empty by (simp add: series_of_parts)
  have t: "getitem data t_col = Some []"
    using assms(3) empty by simp
  show ?thesis
    using e t assms(2)
    by (simp add: survival_stats_def true_divide_def series_min_def series_max_def Let_def
        split: option.splits)
qed

theorem survival_stats_zero_rows_witness:
  "wf_dataframe
     \<lparr>index_len = 0,
      columns = [(''x_0'', Float64, []), (''t'', Float64, []), (''e'', Int64, [])]\<rparr> \<and>
   survival_stats (\<lambda>d t e. None)
     \<lparr>index_len = 0,
      columns = [(''x_0'', Float64, []), (''t'', Float64, []), (''e'', Int64, [])]\<rparr>
     ''t'' ''e'' False =
     ([Banner, Rows 0, Columns 1 ''e'' ''t'', EventsRatio NaN, MinTime NaN, MaxTime NaN, Blank],
      Inr ()) \<and>
   wf_dataframe \<lparr>index_len = 0, columns = [(''t'', Object, []), (''e'', Object, [])]\<rparr> \<and>
   survival_stats (\<lambda>d t e. None)
     \<lparr>index_len = 0, columns = [(''t'', Object, []), (''e'', Object, [])]\<rparr>
     ''t'' ''e'' False =
     ([Banner, Rows 0, Columns 0 ''e'' ''t''], Inl ZeroDivisionError)"
proof -
  let ?d = "\<lparr>index_len = 0,
             columns = [(''x_0'', Float64, []), (''t'', Float64, []), (''e'', Int64, [])]\<rparr>"
  let ?d' = "\<lparr>index_len = 0, columns = [(''t'', Object, []), (''e'', Object, [])]\<rparr>"
  have wf: "wf_dataframe ?d" and wf': "wf_dataframe ?d'"
    by (simp_all add: wf_dataframe_def)
  have t: "getitem ?d ''t'' = Some []" and e: "getitem ?d ''e'' = Some []"
    and de: "dtype_of ?d ''e'' = Some Int64"
    and t': "getitem ?d' ''t'' = Some []" and e': "getitem ?d' ''e'' = Some []"
    and de': "dtype_of ?d' ''e'' = Some Object"
    by (simp_all add: getitem_def dtype_of_def series_of_def)
  show ?thesis
    using wf wf'
      survival_stats_zero_rows [OF wf _ t e de, of "\<lambda>d t e. None" False]
      survival_stats_zero_rows [OF wf' _ t' e' de', of "\<lambda>d t e. None" False]
    by simp
qed

text \<open>
  A frame with the \<^verbatim>\<open>float64\<close> column \<open>t\<close> and the \<^verbatim>\<open>int64\<close> column \<open>e\<close> and no rows,
  as a row filter that matches nothing leaves it: all seven lines are printed and the
  call returns.
\<close>

theorem survival_stats_zero_rows_counterexample:
  "survival_stats (\<lambda>d t e. None)
     \<lparr>index_len = 0, columns = [(''t'', Float64, []), (''e'', Int64, [])]\<rparr>
     ''t'' ''e'' False =
     ([Banner, Rows 0, Columns 0 ''e'' ''t'', EventsRatio NaN, MinTime NaN, MaxTime NaN, Blank],
      Inr ())"
  by (simp add: survival_stats_def series_of_def getitem_def true_divide_def series_min_def
      series_max_def)

section \<open>Failures\<close>

lemma survival_stats_event_missing:
  "getitem data e_col = None \<Longrightarrow>
   survival_stats plot_km_survf data t_col e_col plot =
     ([Banner, Rows (index_len data), Columns (int (length (columns data)) - 2) e_col t_col],
      Inl (KeyError e_col))"
  by (simp add: survival_stats_def getitem_def)

lemma survival_stats_zero_division:
  "series_of data e_col = Some (Object, es) \<Longrightarrow> index_len data = 0 \<Longrightarrow>
   survival_stats plot_km_survf data t_col e_col plot =
     ([Banner, Rows 0, Columns (int (length (columns data)) - 2) e_col t_col],
      Inl ZeroDivisionError)"
  by (simp add: survival_stats_def true_divide_def)

lemma survival_stats_time_missing:
  "series_of data e_col = Some (d, es) \<Longrightarrow> \<not> (index_len data = 0 \<and> d = Object) \<Longrightarrow>
   getitem data t_col = None \<Longrightarrow>
   snd (survival_stats plot_km_survf data t_col e_col plot) = Inl (KeyError t_col)"
  by (auto simp: survival_stats_def true_divide_def Let_def)

lemma survival_stats_first_lines:
  "take 3 (fst (survival_stats plot_km_survf data t_col e_col plot)) =
     [Banner, Rows (index_len data), Columns (int (length (columns data)) - 2) e_col t_col]"
  by (simp add: survival_stats_def Let_def split: option.splits sum.splits)

text \<open>
  C6, as the code has it. The module defines no error type of its own; the error for an
  absent column is the \<^verbatim>\<open>KeyError\<close> that pandas raises, and it is raised only when the
  lookup is reached. Let the time or the event column be absent.
  \<^item> \<^verbatim>\<open>survival_stats\<close> fails with \<^verbatim>\<open>KeyError\<close> for the event column when that is absent.
    When only the time column is absent, it fails with \<^verbatim>\<open>KeyError\<close> for the time column,
    unless the frame has no rows and the event column is of dtype \<^verbatim>\<open>object\<close>: then the
    division on the line before raises \<^verbatim>\<open>ZeroDivisionError\<close> first.
  \<^item> \<^verbatim>\<open>survival_df\<close> fails with \<^verbatim>\<open>KeyError\<close> for the time column when that is absent. When
    only the event column is absent, it fails with \<^verbatim>\<open>KeyError\<close> for the event column
    provided \<open>label_col\<close> is not the event column's name and the label fits; when the
    label is refused, the first assignment raises \<^verbatim>\<open>TypeError\<close> before the event column
    is looked up.
\<close>

theorem missing_column_raises_KeyError:
  assumes "getitem data t_col = None \<or> getitem data e_col = None"
  shows "(getitem data e_col = None \<longrightarrow>
            snd (survival_stats plot_km_survf data t_col e_col plot) = Inl (KeyError e_col)) \<and>
         (getitem data e_col \<noteq> None \<and> index_len data = 0 \<and>
          dtype_of data e_col = Some Object \<longrightarrow>
            snd (survival_stats plot_km_survf data t_col e_col plot) = Inl ZeroDivisionError) \<and>
         (getitem data e_col \<noteq> None \<and>
          \<not> (index_len data = 0 \<and> dtype_of data e_col = Some Object) \<longrightarrow>
            snd (survival_stats plot_km_survf data t_col e_col plot) = Inl (KeyError t_col)) \<and>
         (getitem data t_col = None \<longrightarrow>
            snd (survival_df data t_col e_col label_col exclude_col) = Inl (KeyError t_col)) \<and>
         (\<forall>d_t ts. series_of data t_col = Some (d_t, ts) \<and> label_col \<noteq> e_col \<and>
                  label_fits data label_col d_t \<longrightarrow>
            snd (survival_df data t_col e_col label_col exclude_col) = Inl (KeyError e_col)) \<and>
         (\<forall>d_t ts. series_of data t_col = Some (d_t, ts) \<and>
                  label_refused data label_col (d_t, ts) \<longrightarrow>
            snd (survival_df data t_col e_col label_col exclude_col) = Inl TypeError)"
proof (intro conjI impI allI)
  assume "getitem data e_col = None"
  then show "snd (survival_stats plot_km_survf data t_col e_col plot) = Inl (KeyError e_col)"
    by (simp add: survival_stats_event_missing)
next
  assume a: "getitem data e_col \<noteq> None \<and> index_len data = 0 \<and>
             dtype_of data e_col = Some Object"
  then obtain es where "series_of data e_col = Some (Object, es)"
    by (auto simp: dtype_of_series)
  then show "snd (survival_stats plot_km_survf data t_col e_col plot) = Inl ZeroDivisionError"
    using a by (simp add: survival_stats_zero_division)
next
  assume a: "getitem data e_col \<noteq> None \<and>
             \<not> (index_len data = 0 \<and> dtype_of data e_col = Some Object)"
  then obtain d es where e: "series_of data e_col = Some (d, es)"
    by (cases "series_of data e_col") (auto simp: getitem_def)
  then have "dtype_of data e_col = Some d"
    by (simp add: dtype_of_def)
  then have n: "\<not> (index_len data = 0 \<and> d = Object)"
    using a by auto
  have "getitem data t_col = None"
    using a assms by auto
  then show "snd (survival_stats plot_km_survf data t_col e_col plot) = Inl (KeyError t_col)"
    by (rule survival_stats_time_missing [OF e n])
next
  assume "getitem data t_col = None"
  then have "series_of data t_col = None"
    by (simp add: getitem_def)
  then show "snd (survival_df data t_col e_col label_col exclude_col) = Inl (KeyError t_col)"
    by (simp add: survival_df_time_missing)
next
  fix d_t ts
  assume a: "series_of data t_col = Some (d_t, ts) \<and> label_col \<noteq> e_col \<and>
             label_fits data label_col d_t"
  then have t: "series_of data t_col = Some (d_t, ts)" and f: "label_fits data label_col d_t"
    by simp_all
  have "getitem data t_col \<noteq> None"
    using t by (simp add: getitem_def)
  then have e: "getitem data e_col = None"
    using assms by auto
  obtain s' where w: "stored_series data label_col (d_t, ts) = Inr s'"
    using stored_series_fits [OF f, of ts] by simp
  have "getitem (put_column data label_col s') e_col = None"
    using a e by (auto simp: getitem_put_column)
  then show "snd (survival_df data t_col e_col label_col exclude_col) = Inl (KeyError e_col)"
    using survival_df_event_missing [OF t w] by simp
next
  fix d_t ts
  assume a: "series_of data t_col = Some (d_t, ts) \<and> label_refused data label_col (d_t, ts)"
  then have "stored_series data label_col (d_t, ts) = Inl TypeError"
    by (simp add: stored_series_refused)
  then show "snd (survival_df data t_col e_col label_col exclude_col) = Inl TypeError"
    using a by (simp add: survival_df_write_refused)
qed

theorem missing_column_raises_KeyError_witness:
  "getitem \<lparr>index_len = 2, columns = [(''x'', Int64, [7, 8]), (''t'', Int64, [10, 3])]\<rparr>
     ''e'' = None \<and>
   snd (survival_stats (\<lambda>d t e. None)
          \<lparr>index_len = 2, columns = [(''x'', Int64, [7, 8]), (''t'', Int64, [10, 3])]\<rparr>
          ''t'' ''e'' False) = Inl (KeyError ''e'') \<and>
   snd (survival_df
          \<lparr>index_len = 2, columns = [(''x'', Int64, [7, 8]), (''t'', Int64, [10, 3])]\<rparr>
          ''t'' ''e'' ''Y'' []) = Inl (KeyError ''e'') \<and>
   getitem \<lparr>index_len = 2, columns = [(''x'', Int64, [7, 8]), (''e'', Int64, [0, 1])]\<rparr>
     ''t'' = None \<and>
   snd (survival_stats (\<lambda>d t e. None)
          \<lparr>index_len = 2, columns = [(''x'', Int64, [7, 8]), (''e'', Int64, [0, 1])]\<rparr>
          ''t'' ''e'' False) = Inl (KeyError ''t'') \<and>
   snd (survival_df
          \<lparr>index_len = 2, columns = [(''x'', Int64, [7, 8]), (''e'', Int64, [0, 1])]\<rparr>
          ''t'' ''e'' ''Y'' []) = Inl (KeyError ''t'') \<and>
   getitem \<lparr>index_len = 0, columns = [(''e'', Object, [])]\<rparr> ''t'' = None \<and>
   snd (survival_stats (\<lambda>d t e. None)
          \<lparr>index_len = 0, columns = [(''e'', Object, [])]\<rparr> ''t'' ''e'' False) =
     Inl ZeroDivisionError \<and>
   getitem
     \<lparr>index_len = 2, columns = [(''x'', Int64, [7, 8]), (''t'', Float64, [21 / 2, 3])]\<rparr>
     ''e'' = None \<and>
   snd (survival_df
          \<lparr>index_len = 2, columns = [(''x'', Int64, [7, 8]), (''t'', Float64, [21 / 2, 3])]\<rparr>
          ''t'' ''e'' ''x'' []) = Inl TypeError"
proof -
  let ?d1 = "\<lparr>index_len = 2, columns = [(''x'', Int64, [7, 8]), (''t'', Int64, [10, 3::rat])]\<rparr>"
  let ?d2 = "\<lparr>index_len = 2, columns = [(''x'', Int64, [7, 8]), (''e'', Int64, [0, 1::rat])]\<rparr>"
  let ?d3 = "\<lparr>index_len = 0, columns = [(''e'', Object, [] :: rat list)]\<rparr>"
  let ?d4 = "\<lparr>index_len = 2,
              columns = [(''x'', Int64, [7, 8]), (''t'', Float64, [21 / 2, 3::rat])]\<rparr>"
  have e1: "getitem ?d1 ''e'' = None" and t2: "getitem ?d2 ''t'' = None"
    and t3: "getitem ?d3 ''t'' = None" and e4: "getitem ?d4 ''e'' = None"
    by (simp_all add: getitem_def series_of_def)
  have h1: "getitem ?d1 ''t'' = None \<or> getitem ?d1 ''e'' = None"
    and h2: "getitem ?d2 ''t'' = None \<or> getitem ?d2 ''e'' = None"
    and h3: "getitem ?d3 ''t'' = None \<or> getitem ?d3 ''e'' = None"
    and h4: "getitem ?d4 ''t'' = None \<or> getitem ?d4 ''e'' = None"
    using e1 t2 t3 e4 by simp_all
  have f1: "label_fits ?d1 ''Y'' Int64"
    by (simp add: label_fits_def dtype_of_def series_of_def)
  have r4: "label_refused ?d4 ''x'' (Float64, [21 / 2, 3])"
    by (simp add: label_refused_def dtype_of_def series_of_def fractional_not_int64)
  have s1: "series_of ?d1 ''t'' = Some (Int64, [10, 3])"
    and s4: "series_of ?d4 ''t'' = Some (Float64, [21 / 2, 3])"
    by (simp_all add: series_of_def)
  note c1 = missing_column_raises_KeyError [OF h1, of "\<lambda>d t e. None" False "''Y''" "[]"]
  note c2 = missing_column_raises_KeyError [OF h2, of "\<lambda>d t e. None" False "''Y''" "[]"]
  note c3 = missing_column_raises_KeyError [OF h3, of "\<lambda>d t e. None" False "''Y''" "[]"]
  note c4 = missing_column_raises_KeyError [OF h4, of "\<lambda>d t e. None" False "''x''" "[]"]
  have a1: "snd (survival_stats (\<lambda>d t e. None) ?d1 ''t'' ''e'' False) = Inl (KeyError ''e'')"
    using c1 e1 by blast
  have b1: "snd (survival_df ?d1 ''t'' ''e'' ''Y'' []) = Inl (KeyError ''e'')"
    using c1 s1 f1 by blast
  have a2: "snd (survival_stats (\<lambda>d t e. None) ?d2 ''t'' ''e'' False) = Inl (KeyError ''t'')"
    using c2 by (simp add: getitem_def dtype_of_def series_of_def)
  have b2: "snd (survival_df ?d2 ''t'' ''e'' ''Y'' []) = Inl (KeyError ''t'')"
    using c2 t2 by blast
  have a3: "snd (survival_stats (\<lambda>d t e. None) ?d3 ''t'' ''e'' False) = Inl ZeroDivisionError"
    using c3 by (simp add: getitem_def dtype_of_def series_of_def)
  have b4: "snd (survival_df ?d4 ''t'' ''e'' ''x'' []) = Inl TypeError"
    using c4 s4 r4 by blast
  show ?thesis
    by (intro conjI; (rule e1 a1 b1 t2 a2 b2 t3 a3 e4 b4))
qed

text \<open>
  Three calls on frames that lack a column, none of which ends in \<^verbatim>\<open>KeyError\<close>. The
  frame has no column \<open>e\<close>, and \<open>e\<close> is also the label name: the first assignment
  creates the column, the second one finds it, and the call returns a frame. The frame
  has no rows, an \<^verbatim>\<open>object\<close> event column and no time column: the report stops at the
  division with \<^verbatim>\<open>ZeroDivisionError\<close>. The frame has no event column, \<^verbatim>\<open>float64\<close> times
  with a fractional value, and the label is named as the \<^verbatim>\<open>int64\<close> covariate: the first
  assignment raises \<^verbatim>\<open>TypeError\<close>.
\<close>

theorem missing_column_other_outcomes_counterexample:
  "getitem \<lparr>index_len = 2, columns = [(''x'', Int64, [7, 8]), (''t'', Int64, [10, 0])]\<rparr>
     ''e'' = None \<and>
   survival_df \<lparr>index_len = 2, columns = [(''x'', Int64, [7, 8]), (''t'', Int64, [10, 0])]\<rparr>
     ''t'' ''e'' ''e'' [] =
     (\<lparr>index_len = 2,
       columns = [(''x'', Int64, [7, 8]), (''t'', Int64, [10, 0]), (''e'', Int64, [10, 0])]\<rparr>,
      Inr \<lparr>index_len = 2, columns = [(''x'', Int64, [7, 8]), (''e'', Int64, [10, 0])]\<rparr>) \<and>
   getitem \<lparr>index_len = 0, columns = [(''e'', Object, [])]\<rparr> ''t'' = None \<and>
   survival_stats (\<lambda>d t e. None) \<lparr>index_len = 0, columns = [(''e'', Object, [])]\<rparr>
     ''t'' ''e'' False =
     ([Banner, Rows 0, Columns (- 1) ''e'' ''t''], Inl ZeroDivisionError) \<and>
   getitem
     \<lparr>index_len = 2, columns = [(''x'', Int64, [7, 8]), (''t'', Float64, [21 / 2, 3])]\<rparr>
     ''e'' = None \<and>
   survival_df
     \<lparr>index_len = 2, columns = [(''x'', Int64, [7, 8]), (''t'', Float64, [21 / 2, 3])]\<rparr>
     ''t'' ''e'' ''x'' [] =
     (\<lparr>index_len = 2, columns = [(''x'', Int64, [7, 8]), (''t'', Float64, [21 / 2, 3])]\<rparr>,
      Inl TypeError)"
  by (simp add: survival_df_def survival_stats_def true_divide_def series_of_def getitem_def
      loc_setitem_def stored_series_def np_can_hold_element_def put_column_def getitem_list_def
      negate_def fractional_not_int64)

text \<open>
  C7, as the code has it. Neither function is atomic on failure. \<^verbatim>\<open>survival_stats\<close>
  prints before it reads a column: whenever it fails, the heading, the row count and the
  column count lines have already been written (and nothing more when the event column
  is the absent one). When \<^verbatim>\<open>survival_df\<close> fails it returns no frame, and the failure is
  one of three: the time column is absent (\<^verbatim>\<open>KeyError\<close>) and the caller's frame is as
  before; or the first assignment is refused (\<^verbatim>\<open>TypeError\<close>, for a label that names an
  existing column and does not fit, in a frame with rows) and the caller's frame is as
  before; or the event column is absent (\<^verbatim>\<open>KeyError\<close>) and the first assignment has
  already written the times into the caller's frame under \<open>label_col\<close>.
\<close>

theorem failure_after_partial_effects:
  assumes "wf_dataframe data"
  shows "(\<forall>err. snd (survival_stats plot_km_survf data t_col e_col plot) = Inl err \<longrightarrow>
            take 3 (fst (survival_stats plot_km_survf data t_col e_col plot)) =
              [Banner, Rows (index_len data),
               Columns (int (length (columns data)) - 2) e_col t_col] \<and>
            (getitem data e_col = None \<longrightarrow>
               length (fst (survival_stats plot_km_survf data t_col e_col plot)) = 3)) \<and>
         (\<forall>err. snd (survival_df data t_col e_col label_col exclude_col) = Inl err \<longrightarrow>
            (getitem data t_col = None \<and> err = KeyError t_col \<and>
             fst (survival_df data t_col e_col label_col exclude_col) = data) \<or>
            (\<exists>d_t. dtype_of data t_col = Some d_t \<and> err = TypeError \<and>
                  fst (survival_df data t_col e_col label_col exclude_col) = data \<and>
                  label_col \<in> set (map fst (columns data)) \<and> index_len data \<noteq> 0 \<and>
                  \<not> label_fits data label_col d_t) \<or>
            (\<exists>d_t ts d.
                  series_of data t_col = Some (d_t, ts) \<and> getitem data e_col = None \<and>
                  label_col \<noteq> e_col \<and> err = KeyError e_col \<and>
                  fst (survival_df data t_col e_col label_col exclude_col) =
                    put_column data label_col
                      (d, if d = Float64 \<and> d_t = Int64 then map to_float64 ts else ts)))"
proof (intro conjI allI impI)
  fix err
  show "take 3 (fst (survival_stats plot_km_survf data t_col e_col plot)) =
          [Banner, Rows (index_len data), Columns (int (length (columns data)) - 2) e_col t_col]"
    by (rule survival_stats_first_lines)
next
  fix err
  assume "getitem data e_col = None"
  then show "length (fst (survival_stats plot_km_survf data t_col e_col plot)) = 3"
    by (simp add: survival_stats_event_missing)
next
  fix err
  assume fail: "snd (survival_df data t_col e_col label_col exclude_col) = Inl err"
  let ?A = "getitem data t_col = None \<and> err = KeyError t_col \<and>
             fst (survival_df data t_col e_col label_col exclude_col) = data"
  let ?B = "\<exists>d_t. dtype_of data t_col = Some d_t \<and> err = TypeError \<and>
                  fst (survival_df data t_col e_col label_col exclude_col) = data \<and>
                  label_col \<in> set (map fst (columns data)) \<and> index_len data \<noteq> 0 \<and>
                  \<not> label_fits data label_col d_t"
  let ?C = "\<exists>d_t ts d.
                  series_of data t_col = Some (d_t, ts) \<and> getitem data e_col = None \<and>
                  label_col \<noteq> e_col \<and> err = KeyError e_col \<and>
                  fst (survival_df data t_col e_col label_col exclude_col) =
                    put_column data label_col
                      (d, if d = Float64 \<and> d_t = Int64 then map to_float64 ts else ts)"
  show "?A \<or> ?B \<or> ?C"
  proof (cases "series_of data t_col")
    case None
    then have ?A
      using fail by (simp add: survival_df_time_missing getitem_def)
    then show ?thesis ..
  next
    case (Some s)
    obtain d_t ts where s: "s = (d_t, ts)"
      by (cases s)
    with Some have t: "series_of data t_col = Some (d_t, ts)"
      by simp
    show ?thesis
    proof (cases "stored_series data label_col (d_t, ts)")
      case (Inl err')
      have run: "survival_df data t_col e_col label_col exclude_col = (data, Inl err')"
        using survival_df_write_refused [OF t Inl] .
      have "dtype_of data t_col = Some d_t"
        using t by (simp add: dtype_of_def)
      then have ?B
        using stored_series_error [OF Inl] run fail by auto
      then show ?thesis by blast
    next
      case (Inr s')
      obtain d st where s': "s' = (d, st)"
        by (cases s')
      with Inr have w: "stored_series data label_col (d_t, ts) = Inr (d, st)"
        by simp
      have st: "st = (if d = Float64 \<and> d_t = Int64 then map to_float64 ts else ts)"
        using w by (rule stored_series_values)
      show ?thesis
      proof (cases "getitem data e_col")
        case None
        have ne: "label_col \<noteq> e_col"
        proof
          assume eq: "label_col = e_col"
          then have e1: "getitem (put_column data label_col (d, st)) e_col = Some st"
            by (simp add: getitem_put_column)
          show False
            using survival_df_success [OF t w e1 refl, of exclude_col] fail by simp
        qed
        then have "getitem (put_column data label_col (d, st)) e_col = None"
          using None by (auto simp: getitem_put_column)
        then have "survival_df data t_col e_col label_col exclude_col =
                     (put_column data label_col (d, st), Inl (KeyError e_col))"
          by (rule survival_df_event_missing [OF t w])
        then have ?C
          using t None ne fail st by auto
        then show ?thesis by blast
      next
        case (Some es)
        then show ?thesis
          using survival_df_present [OF assms t Some w, of exclude_col] fail by simp
      qed
    qed
  qed
qed

theorem failure_after_partial_effects_witness:
  "wf_dataframe
     \<lparr>index_len = 2, columns = [(''x'', Int64, [7, 8]), (''t'', Int64, [10, 3])]\<rparr> \<and>
   snd (survival_stats (\<lambda>d t e. None)
          \<lparr>index_len = 2, columns = [(''x'', Int64, [7, 8]), (''t'', Int64, [10, 3])]\<rparr>
          ''t'' ''e'' False) = Inl (KeyError ''e'') \<and>
   fst (survival_stats (\<lambda>d t e. None)
          \<lparr>index_len = 2, columns = [(''x'', Int64, [7, 8]), (''t'', Int64, [10, 3])]\<rparr>
          ''t'' ''e'' False) = [Banner, Rows 2, Columns 0 ''e'' ''t''] \<and>
   snd (survival_df
          \<lparr>index_len = 2, columns = [(''x'', Int64, [7, 8]), (''t'', Int64, [10, 3])]\<rparr>
          ''t'' ''e'' ''Y'' []) = Inl (KeyError ''e'') \<and>
   fst (survival_df
          \<lparr>index_len = 2, columns = [(''x'', Int64, [7, 8]), (''t'', Int64, [10, 3])]\<rparr>
          ''t'' ''e'' ''Y'' []) =
     \<lparr>index_len = 2,
      columns = [(''x'', Int64, [7, 8]), (''t'', Int64, [10, 3]), (''Y'', Int64, [10, 3])]\<rparr> \<and>
   wf_dataframe
     \<lparr>index_len = 2,
      columns = [(''x'', Int64, [7, 8]), (''t'', Float64, [21 / 2, 3]),
                 (''e'', Int64, [0, 1])]\<rparr> \<and>
   snd (survival_df
          \<lparr>index_len = 2,
           columns = [(''x'', Int64, [7, 8]), (''t'', Float64, [21 / 2, 3]),
                      (''e'', Int64, [0, 1])]\<rparr>
          ''t'' ''e'' ''x'' []) = Inl TypeError \<and>
   fst (survival_df
          \<lparr>index_len = 2,
           columns = [(''x'', Int64, [7, 8]), (''t'', Float64, [21 / 2, 3]),
                      (''e'', Int64, [0, 1])]\<rparr>
          ''t'' ''e'' ''x'' []) =
     \<lparr>index_len = 2,
      columns = [(''x'', Int64, [7, 8]), (''t'', Float64, [21 / 2, 3]),
                 (''e'', Int64, [0, 1])]\<rparr>"
proof -
  let ?d = "\<lparr>index_len = 2, columns = [(''x'', Int64, [7, 8]), (''t'', Int64, [10, 3::rat])]\<rparr>"
  let ?d' = "\<lparr>index_len = 2,
      columns = [(''x'', Int64, [7, 8]), (''t'', Float64, [21 / 2, 3]),
                 (''e'', Int64, [0, 1::rat])]\<rparr>"
  have wf: "wf_dataframe ?d" and wf': "wf_dataframe ?d'"
    by (simp_all add: wf_dataframe_def is_int64_def)
  have e: "getitem ?d ''e'' = None" and t: "series_of ?d ''t'' = Some (Int64, [10, 3])"
    and t': "getitem ?d' ''t'' = Some [21 / 2, 3]"
    by (simp_all add: getitem_def series_of_def)
  have s: "snd (survival_stats (\<lambda>d t e. None) ?d ''t'' ''e'' False) = Inl (KeyError ''e'')"
    using e by (simp add: survival_stats_event_missing)
  have r: "label_refused ?d' ''x'' (Float64, [21 / 2, 3])"
    by (simp add: label_refused_def dtype_of_def series_of_def fractional_not_int64)
  have f: "snd (survival_df ?d ''t'' ''e'' ''Y'' []) = Inl (KeyError ''e'')"
    by (simp add: survival_df_def series_of_def getitem_def loc_setitem_def stored_series_def
        put_column_def)
  have f': "snd (survival_df ?d' ''t'' ''e'' ''x'' []) = Inl TypeError"
    by (simp add: survival_df_def series_of_def getitem_def loc_setitem_def stored_series_def
        np_can_hold_element_def fractional_not_int64)
  note main = failure_after_partial_effects [OF wf, of "\<lambda>d t e. None" "''t''" "''e''" False
      "''Y''" "[]"]
  note main' = failure_after_partial_effects [OF wf', of "\<lambda>d t e. None" "''t''" "''e''" False
      "''x''" "[]"]
  have "take 3 (fst (survival_stats (\<lambda>d t e. None) ?d ''t'' ''e'' False)) =
          [Banner, Rows 2, Columns 0 ''e'' ''t''] \<and>
        length (fst (survival_stats (\<lambda>d t e. None) ?d ''t'' ''e'' False)) = 3"
    using main [THEN conjunct1, rule_format, OF s] e by simp
  then have 1: "fst (survival_stats (\<lambda>d t e. None) ?d ''t'' ''e'' False) =
                  [Banner, Rows 2, Columns 0 ''e'' ''t'']"
    by (metis order_refl take_all)
  have y: "dtype_of (fst (survival_df ?d ''t'' ''e'' ''Y'' [])) ''Y'' = Some Int64"
    by (simp add: survival_df_def series_of_def getitem_def dtype_of_def loc_setitem_def
        stored_series_def put_column_def)
  have 2: "fst (survival_df ?d ''t'' ''e'' ''Y'' []) =
             \<lparr>index_len = 2,
              columns = [(''x'', Int64, [7, 8]), (''t'', Int64, [10, 3]),
                         (''Y'', Int64, [10, 3])]\<rparr>"
    using main [THEN conjunct2, rule_format, OF f] t y
    apply (elim disjE exE conjE)
      apply (simp add: getitem_def)
     apply simp
    apply (simp add: dtype_of_def series_of_put_column)
    apply (simp add: put_column_def)
    done
  have 3: "fst (survival_df ?d' ''t'' ''e'' ''x'' []) = ?d'"
    using main' [THEN conjunct2, rule_format, OF f'] t'
    by (elim disjE exE conjE) simp_all
  show ?thesis
    by (intro conjI; (rule wf s 1 f 2 wf' f' 3))
qed

text \<open>
  A frame without the event column. The report has written three lines when the error
  is raised; the encoding raises after the caller's frame has received the column \<open>Y\<close>.
\<close>

theorem failure_not_atomic_counterexample:
  "survival_stats (\<lambda>d t e. None)
     \<lparr>index_len = 2, columns = [(''x'', Int64, [7, 8]), (''t'', Int64, [10, 3])]\<rparr>
     ''t'' ''e'' False =
     ([Banner, Rows 2, Columns 0 ''e'' ''t''], Inl (KeyError ''e'')) \<and>
   survival_df
     \<lparr>index_len = 2, columns = [(''x'', Int64, [7, 8]), (''t'', Int64, [10, 3])]\<rparr>
     ''t'' ''e'' ''Y'' [] =
     (\<lparr>index_len = 2,
       columns = [(''x'', Int64, [7, 8]), (''t'', Int64, [10, 3]), (''Y'', Int64, [10, 3])]\<rparr>,
      Inl (KeyError ''e''))"
  by (simp add: survival_stats_def survival_df_def series_of_def getitem_def loc_setitem_def
      stored_series_def put_column_def)

section \<open>The label named as the event column\<close>

text \<open>
  C1. The docstring of \<^verbatim>\<open>survival_df\<close> promises that negative values of the label are
  the right-censored rows, and the claim states that for every valid survival table. The
  code evaluated on the valid one-row table with time 10 and event 0 (a censored row):
  with \<open>label_col\<close> the name of the event column, the first assignment replaces the
  events by the times before the second one compares them with 0, no row is selected,
  and the returned label is 10, not \<open>-10\<close>. With a new label name, and also with
  \<open>label_col\<close> the name of the time column, the same table gets the label \<open>-10\<close>.
\<close>

theorem survival_df_label_named_as_event_column:
  "valid_survival_table
     \<lparr>index_len = 1, columns = [(''t'', Int64, [10]), (''e'', Int64, [0])]\<rparr> ''t'' ''e'' \<and>
   survival_df \<lparr>index_len = 1, columns = [(''t'', Int64, [10]), (''e'', Int64, [0])]\<rparr>
     ''t'' ''e'' ''e'' [] =
     (\<lparr>index_len = 1, columns = [(''t'', Int64, [10]), (''e'', Int64, [10])]\<rparr>,
      Inr \<lparr>index_len = 1, columns = [(''e'', Int64, [10])]\<rparr>) \<and>
   survival_df \<lparr>index_len = 1, columns = [(''t'', Int64, [10]), (''e'', Int64, [0])]\<rparr>
     ''t'' ''e'' ''Y'' [] =
     (\<lparr>index_len = 1,
       columns = [(''t'', Int64, [10]), (''e'', Int64, [0]), (''Y'', Int64, [- 10])]\<rparr>,
      Inr \<lparr>index_len = 1, columns = [(''Y'', Int64, [- 10])]\<rparr>) \<and>
   survival_df \<lparr>index_len = 1, columns = [(''t'', Int64, [10]), (''e'', Int64, [0])]\<rparr>
     ''t'' ''e'' ''t'' [] =
     (\<lparr>index_len = 1, columns = [(''t'', Int64, [- 10]), (''e'', Int64, [0])]\<rparr>,
      Inr \<lparr>index_len = 1, columns = [(''t'', Int64, [- 10])]\<rparr>)"
  by (simp add: valid_survival_table_def wf_dataframe_def is_int64_def survival_df_def
      series_of_def getitem_def loc_setitem_def stored_series_def np_can_hold_element_def
      put_column_def getitem_list_def negate_def)

lemma stored_series_dtype:
  "stored_series data c (d_t, ts) = Inr (d, st) \<Longrightarrow> d = d_t \<or> dtype_of data c = Some d"
  by (auto simp: stored_series_def dtype_of_def split: option.splits if_splits)

text \<open>
  The defect is confined to that one label name. For every valid survival table and
  every \<open>label_col\<close> other than the name of the event column, every row of a returned
  frame has the time as its label when the event indicator is 1 and the negated time
  when it is 0 (the case of \<^verbatim>\<open>int64\<close> times written into an existing \<^verbatim>\<open>float64\<close> column,
  where the times are converted first, is left aside).
\<close>

lemma survival_df_label_encoding_other_names:
  assumes "valid_survival_table data t_col e_col"
      and "label_col \<noteq> e_col"
      and "series_of data t_col = Some (d_t, ts)"
      and "getitem data e_col = Some es"
      and "\<not> (dtype_of data label_col = Some Float64 \<and> d_t = Int64)"
      and "survival_df data t_col e_col label_col exclude_col = (data', Inr out)"
      and "i < index_len data"
  shows "\<exists>d ls. last (columns out) = (label_col, d, ls) \<and>
                length ls = index_len data \<and>
                (es ! i = 1 \<longrightarrow> ls ! i = ts ! i) \<and>
                (es ! i = 0 \<longrightarrow> ls ! i = - (ts ! i))"
proof -
  have wf: "wf_dataframe data"
    using assms(1) by (simp add: valid_survival_table_def)
  have t: "getitem data t_col = Some ts"
    using assms(3) by (simp add: getitem_def)
  have lt: "length ts = index_len data" and le: "length es = index_len data"
    using wf t assms(4) by (simp_all add: wf_getitem_length)
  have "list_all (\<lambda>t. 0 \<le> t) ts"
    using assms(1) t assms(4) by (simp add: valid_survival_table_def)
  then have pos: "0 \<le> ts ! i"
    using lt assms(7) by (simp add: list_all_length)
  show ?thesis
  proof (rule survival_df_returns [OF wf assms(3,4,6)])
    fix d st
    assume w: "stored_series data label_col (d_t, ts) = Inr (d, st)"
      and st: "st = (if d = Float64 \<and> d_t = Int64 then map to_float64 ts else ts)"
      and out: "out = \<lparr>index_len = index_len data,
            columns =
              map (\<lambda>c. (c, the (series_of data' c)))
                (filter (\<lambda>c. c \<notin> set ([t_col, e_col] @ exclude_col)) (map fst (columns data)))
              @ [(label_col, d,
                  map2 (\<lambda>e v. if e = 0 then negate d v else v)
                    (if e_col = label_col then st else es) st)]\<rparr>"
    let ?ls = "map2 (\<lambda>e v. if e = 0 then negate d v else v) es ts"
    have "\<not> (d = Float64 \<and> d_t = Int64)"
      using stored_series_dtype [OF w] assms(5) by auto
    then have st': "st = ts"
      using st by auto
    have last: "last (columns out) = (label_col, d, ?ls)"
      using out st' assms(2) by simp
    have row: "?ls ! i = (if es ! i = 0 then negate d (ts ! i) else ts ! i)"
      using lt le assms(7) by (intro label_row) simp_all
    have "negate d (ts ! i) = - (ts ! i)"
      using pos by (simp add: negate_def)
    with row have "(es ! i = 1 \<longrightarrow> ?ls ! i = ts ! i) \<and> (es ! i = 0 \<longrightarrow> ?ls ! i = - (ts ! i))"
      by simp
    moreover have "length ?ls = index_len data"
      using lt le by simp
    ultimately show ?thesis
      using last by blast
  qed
qed

section \<open>The default configuration across calls\<close>

lemma load_simulated_data_store:
  "fst (load_simulated_data generate_data st args gaussian_config) =
   fst (generate_data st args
          (case gaussian_config of None \<Rightarrow> gaussian_config_default | Some r \<Rightarrow> r))"
  by (simp add: load_simulated_data_def Let_def split: prod.splits sum.splits)

lemma run_calls_readonly:
  assumes "\<forall>st args cfg. fst (generate_data st args cfg) = st"
  shows "run_calls generate_data st calls =
           (st, map (\<lambda>call. snd (load_simulated_data generate_data st (fst call) (snd call))) calls)"
proof (induction calls)
  case Nil
  then show ?case by simp
next
  case (Cons call calls)
  have "fst (load_simulated_data generate_data st (fst call) (snd call)) = st"
    using assms by (simp add: load_simulated_data_store)
  then obtain res where "load_simulated_data generate_data st (fst call) (snd call) = (st, res)"
    by (metis prod.collapse)
  then show ?case
    using Cons by simp
qed

text \<open>
  C9, as the code has it. The default of \<open>gaussian_config\<close> is one dict object, created
  when the function is defined: a call that omits the argument hands the simulator that
  very object, exactly as a call that passes it explicitly. \<^verbatim>\<open>load_simulated_data\<close>
  itself never writes to the store. Hence, provided the simulator does not write to the
  store either, every sequence of calls leaves the store (and with it the empty default)
  as it was, and each call of the sequence returns what the same call returns on its
  own, regardless of the calls before it.
\<close>

theorem load_simulated_data_shared_default:
  assumes "\<forall>st args cfg. fst (generate_data st args cfg) = st"
  shows "load_simulated_data generate_data st args None =
           load_simulated_data generate_data st args (Some gaussian_config_default) \<and>
         fst (run_calls generate_data st calls) = st \<and>
         snd (run_calls generate_data st calls) =
           map (\<lambda>call. snd (load_simulated_data generate_data st (fst call) (snd call))) calls"
  using run_calls_readonly [OF assms, of st calls]
  by (simp add: load_simulated_data_def)

theorem load_simulated_data_shared_default_witness:
  "(\<forall>st args cfg. fst (constant_generator st args cfg) = st) \<and>
   fst (run_calls constant_generator module_store
          [(\<lparr>hr_ratio = 2, arg_N = 1, num_features = 1, num_var = 1, average_death = 5,
             end_time = 15, arg_method = ''gaussian'', seed = 42\<rparr>, None),
           (\<lparr>hr_ratio = 2, arg_N = 1, num_features = 1, num_var = 1, average_death = 5,
             end_time = 15, arg_method = ''gaussian'', seed = 42\<rparr>, None)]) = module_store \<and>
   snd (run_calls constant_generator module_store
          [(\<lparr>hr_ratio = 2, arg_N = 1, num_features = 1, num_var = 1, average_death = 5,
             end_time = 15, arg_method = ''gaussian'', seed = 42\<rparr>, None),
           (\<lparr>hr_ratio = 2, arg_N = 1, num_features = 1, num_var = 1, average_death = 5,
             end_time = 15, arg_method = ''gaussian'', seed = 42\<rparr>, None)]) =
     [Inr \<lparr>index_len = 1,
           columns = [(''x_0'', Float64, [0]), (''e'', Int64, [1]), (''t'', Float64, [1])]\<rparr>,
      Inr \<lparr>index_len = 1,
           columns = [(''x_0'', Float64, [0]), (''e'', Int64, [1]), (''t'', Float64, [1])]\<rparr>]"
proof -
  have h: "\<forall>st args cfg. fst (constant_generator st args cfg) = st"
    by (simp add: constant_generator_def)
  show ?thesis
    using h load_simulated_data_shared_default [OF h, of module_store _
        "[(\<lparr>hr_ratio = 2, arg_N = 1, num_features = 1, num_var = 1, average_death = 5,
            end_time = 15, arg_method = ''gaussian'', seed = 42\<rparr>, None),
          (\<lparr>hr_ratio = 2, arg_N = 1, num_features = 1, num_var = 1, average_death = 5,
            end_time = 15, arg_method = ''gaussian'', seed = 42\<rparr>, None)]"]
    by (simp add: load_simulated_data_def constant_generator_def frame_of_matrix_def
        setitem_def put_column_def str_nat.simps gaussian_config_default_def)
qed

text \<open>
  Two identical calls that omit \<open>gaussian_config\<close>, with a simulator that keeps a call
  count in the configuration dict it receives: the second call finds in the default dict
  the entry the first one left there, and returns different data.
\<close>

theorem load_simulated_data_default_leaks_counterexample:
  "run_calls counting_generator module_store
     [(\<lparr>hr_ratio = 2, arg_N = 1, num_features = 1, num_var = 1, average_death = 5,
        end_time = 15, arg_method = ''gaussian'', seed = 42\<rparr>, None),
      (\<lparr>hr_ratio = 2, arg_N = 1, num_features = 1, num_var = 1, average_death = 5,
        end_time = 15, arg_method = ''gaussian'', seed = 42\<rparr>, None)] =
     (Map.empty(gaussian_config_default \<mapsto> [(''calls'', 2)]),
      [Inr \<lparr>index_len = 1,
            columns = [(''x_0'', Float64, [0]), (''e'', Int64, [1]), (''t'', Float64, [1])]\<rparr>,
       Inr \<lparr>index_len = 1,
            columns = [(''x_0'', Float64, [1]), (''e'', Int64, [1]), (''t'', Float64, [1])]\<rparr>])"
  by (simp add: load_simulated_data_def counting_generator_def module_store_def
      frame_of_matrix_def setitem_def put_column_def str_nat.simps gaussian_config_default_def)

end
